theory Spec2Isabelle
  imports Complex_Main "HOL-Library.Word" "HOL-Library.Sublist" "HOL-Library.Multiset"
begin

section \<open>JavaScript strings\<close>

text \<open>
  A JavaScript string is a sequence of UTF-16 code units. The agent's string
  operations (\<^verbatim>\<open>startsWith\<close>, \<^verbatim>\<open>replace\<close>, \<^verbatim>\<open>trim\<close>, \<^verbatim>\<open>split\<close>, \<^verbatim>\<open>match\<close> with a regular
  expression without the \<^verbatim>\<open>u\<close> flag, \<^verbatim>\<open>parseFloat\<close>) all work on code units, so a
  string is a list of 16-bit words. \<open>js\<close> embeds an ASCII literal.
\<close>

type_synonym jschar = "16 word"
type_synonym jsstring = "jschar list"

definition js :: "string \<Rightarrow> jsstring" where
  "js s = map (\<lambda>c. of_nat (of_char c)) s"

text \<open>
  \<^verbatim>\<open>WhiteSpace\<close> and \<^verbatim>\<open>LineTerminator\<close> of ECMAScript: what \<^verbatim>\<open>trim\<close> strips, what
  \<^verbatim>\<open>\s\<close> matches and what \<^verbatim>\<open>parseFloat\<close> skips at the start.
\<close>

definition isWhiteSpace :: "jschar \<Rightarrow> bool" where
  "isWhiteSpace c \<longleftrightarrow>
     c \<in> {0x0009, 0x000A, 0x000B, 0x000C, 0x000D, 0x0020, 0x00A0, 0x1680,
          0x2028, 0x2029, 0x202F, 0x205F, 0x3000, 0xFEFF}
     \<or> (0x2000 \<le> c \<and> c \<le> 0x200A)"

text \<open>\<^verbatim>\<open>\w\<close> without the \<^verbatim>\<open>u\<close> and \<^verbatim>\<open>i\<close> flags: \<^verbatim>\<open>[A-Za-z0-9_]\<close>.\<close>

definition isDigit :: "jschar \<Rightarrow> bool" where
  "isDigit c \<longleftrightarrow> 0x30 \<le> c \<and> c \<le> 0x39"

definition isWordChar :: "jschar \<Rightarrow> bool" where
  "isWordChar c \<longleftrightarrow>
     (0x41 \<le> c \<and> c \<le> 0x5A) \<or> (0x61 \<le> c \<and> c \<le> 0x7A) \<or> isDigit c \<or> c = 0x5F"

definition startsWith :: "jsstring \<Rightarrow> jsstring \<Rightarrow> bool" where
  "startsWith s searchString \<longleftrightarrow> prefix searchString s"

text \<open>
  \<^verbatim>\<open>s.replace(pattern, replacement)\<close> with a string pattern replaces the first
  occurrence only. The agent's replacement is always the empty string, so the
  \<^verbatim>\<open>$\<close> patterns of the replacement text play no part.
\<close>

fun replace :: "jsstring \<Rightarrow> jsstring \<Rightarrow> jsstring \<Rightarrow> jsstring" where
  "replace pat rep [] = (if pat = [] then rep else [])"
| "replace pat rep (c # cs) =
     (if prefix pat (c # cs) then rep @ drop (length pat) (c # cs)
      else c # replace pat rep cs)"

text \<open>\<^verbatim>\<open>s.replace(/"/g, "")\<close>: every double quote is removed.\<close>

definition removeQuotes :: "jsstring \<Rightarrow> jsstring" where
  "removeQuotes s = filter (\<lambda>c. c \<noteq> 0x22) s"

definition trim :: "jsstring \<Rightarrow> jsstring" where
  "trim s = rev (dropWhile isWhiteSpace (rev (dropWhile isWhiteSpace s)))"

text \<open>\<^verbatim>\<open>s.split(sep)\<close> for a one-unit separator; the empty string gives one empty field.\<close>

fun split :: "jschar \<Rightarrow> jsstring \<Rightarrow> jsstring list" where
  "split sep [] = [[]]"
| "split sep (c # cs) =
     (if c = sep then [] # split sep cs
      else (case split sep cs of
              [] \<Rightarrow> [[c]]
            | f # fs \<Rightarrow> (c # f) # fs))"

subsection \<open>parseFloat\<close>

text \<open>
  \<^verbatim>\<open>parseFloat\<close> skips leading white space and reads the longest prefix that is a
  \<^verbatim>\<open>StrDecimalLiteral\<close>; without such a prefix the result is \<^verbatim>\<open>NaN\<close>. A number
  other than \<^verbatim>\<open>NaN\<close> is represented by the literal that was read: which binary64
  value it denotes is not computed, since the agent only tests the result with
  \<^verbatim>\<open>isNaN\<close> and hands it to the tool.
\<close>

datatype jsnum = NaN | NumLit jsstring

definition isNaN :: "jsnum \<Rightarrow> bool" where
  "isNaN x \<longleftrightarrow> x = NaN"

text \<open>\<^verbatim>\<open>ExponentPart\<close>, when one follows: \<^verbatim>\<open>e\<close> or \<^verbatim>\<open>E\<close>, an optional sign, digits.\<close>

definition exponentPart :: "jsstring \<Rightarrow> jsstring" where
  "exponentPart s =
     (case s of
        [] \<Rightarrow> []
      | e # t \<Rightarrow>
          if e = 0x65 \<or> e = 0x45 then
            (case t of
               [] \<Rightarrow> []
             | sg # u \<Rightarrow>
                 if sg = 0x2B \<or> sg = 0x2D then
                   (if takeWhile isDigit u = [] then [] else e # sg # takeWhile isDigit u)
                 else
                   (if takeWhile isDigit t = [] then [] else e # takeWhile isDigit t))
          else [])"

definition strUnsignedDecimalLiteral :: "jsstring \<Rightarrow> jsstring option" where
  "strUnsignedDecimalLiteral s =
     (if prefix (js ''Infinity'') s then Some (js ''Infinity'')
      else
        let intDigits = takeWhile isDigit s;
            afterInt = dropWhile isDigit s
        in (case afterInt of
              [] \<Rightarrow> if intDigits = [] then None else Some intDigits
            | d # t \<Rightarrow>
                if d = 0x2E \<and> \<not> (intDigits = [] \<and> takeWhile isDigit t = []) then
                  Some (intDigits @ d # takeWhile isDigit t @ exponentPart (dropWhile isDigit t))
                else if intDigits = [] then None
                else Some (intDigits @ exponentPart afterInt)))"

definition parseFloat :: "jsstring \<Rightarrow> jsnum" where
  "parseFloat s =
     (let t = dropWhile isWhiteSpace s in
      case t of
        [] \<Rightarrow> NaN
      | sg # u \<Rightarrow>
          if sg = 0x2B \<or> sg = 0x2D then
            (case strUnsignedDecimalLiteral u of
               None \<Rightarrow> NaN
             | Some lit \<Rightarrow> NumLit (sg # lit))
          else
            (case strUnsignedDecimalLiteral t of
               None \<Rightarrow> NaN
             | Some lit \<Rightarrow> NumLit lit))"

section \<open>Types of the agent (types.ts)\<close>

text \<open>
  A thrown value is an \<^verbatim>\<open>Error\<close> with its message, or some other value: the
  handlers read \<^verbatim>\<open>error instanceof Error ? error.message : "Unknown error"\<close>.
\<close>

datatype exn = JsError jsstring | NonError

definition errorMessage :: "exn \<Rightarrow> jsstring" where
  "errorMessage e = (case e of JsError m \<Rightarrow> m | NonError \<Rightarrow> js ''Unknown error'')"

definition UnreachableCaseError :: "jsstring \<Rightarrow> exn" where
  "UnreachableCaseError v = JsError (js ''Unreachable case: '' @ v)"

text \<open>
  \<^verbatim>\<open>ToolName\<close> is a union of string literals, erased at run time: a tool name is a
  string, and \<^verbatim>\<open>isToolName\<close> is the membership check. The sources hold two
  \<^verbatim>\<open>types.ts\<close>. This is the one with the two names \<^verbatim>\<open>getCoordinates\<close> and
  \<^verbatim>\<open>getWeather\<close>, the tools that this \<^verbatim>\<open>AgentClient\<close> imports and that its \<^verbatim>\<open>switch\<close>
  dispatches; the later one adds \<^verbatim>\<open>getTime\<close> and belongs to a later \<^verbatim>\<open>AgentClient\<close>.
\<close>

type_synonym ToolName = jsstring

definition isToolName :: "jsstring \<Rightarrow> bool" where
  "isToolName v \<longleftrightarrow> v = js ''getCoordinates'' \<or> v = js ''getWeather''"

text \<open>The five activity types the agent emits, and the content of an activity.\<close>

datatype AgentActivityType =
  Type_Thought | Type_Action | Type_Response | Type_Elicitation | Type_Error

datatype Content =
    Thought jsstring
  | Action ToolName "jsstring option" "jsstring option"
  | Response jsstring
  | Elicitation jsstring
  | Error jsstring

section \<open>Classifying the model's output (AgentClient.mapResponseToLinearActivityContent)\<close>

text \<open>\<^verbatim>\<open>typeToKeyword\<close>, in the order \<^verbatim>\<open>Object.entries\<close> scans it.\<close>

fun keywordOf :: "AgentActivityType \<Rightarrow> jsstring" where
  "keywordOf Type_Thought = js ''THINKING:''"
| "keywordOf Type_Action = js ''ACTION:''"
| "keywordOf Type_Response = js ''RESPONSE:''"
| "keywordOf Type_Elicitation = js ''ELICITATION:''"
| "keywordOf Type_Error = js ''ERROR:''"

definition typeToKeyword :: "(AgentActivityType \<times> jsstring) list" where
  "typeToKeyword =
     [(Type_Thought, js ''THINKING:''),
      (Type_Action, js ''ACTION:''),
      (Type_Response, js ''RESPONSE:''),
      (Type_Elicitation, js ''ELICITATION:''),
      (Type_Error, js ''ERROR:'')]"

text \<open>
  The pattern \<^verbatim>\<open>/ACTION:\s*(\w+)\(([^)]+)\)/\<close> tried at the start of \<open>s\<close>. The three
  greedy repetitions are each followed by an atom that their own class excludes
  (\<^verbatim>\<open>\w\<close> after \<^verbatim>\<open>\s*\<close>, \<^verbatim>\<open>(\<close> after \<^verbatim>\<open>\w+\<close>, \<^verbatim>\<open>)\<close> after \<^verbatim>\<open>[^)]+\<close>), so backtracking
  never finds a match that the longest runs miss. The result holds the two
  capture groups.
\<close>

definition matchActionAt :: "jsstring \<Rightarrow> (jsstring \<times> jsstring) option" where
  "matchActionAt s =
     (if prefix (js ''ACTION:'') s then
        let afterSpace = dropWhile isWhiteSpace (drop 7 s);
            toolNameRaw = takeWhile isWordChar afterSpace
        in if toolNameRaw = [] then None
           else (case dropWhile isWordChar afterSpace of
                   [] \<Rightarrow> None
                 | c # rest \<Rightarrow>
                     if c = 0x28 then
                       let params = takeWhile (\<lambda>x. x \<noteq> 0x29) rest
                       in if params = [] then None
                          else (case dropWhile (\<lambda>x. x \<noteq> 0x29) rest of
                                  [] \<Rightarrow> None
                                | _ # _ \<Rightarrow> Some (toolNameRaw, params))
                     else None)
      else None)"

text \<open>\<^verbatim>\<open>response.match(...)\<close>: the leftmost position at which the pattern matches.\<close>

fun actionMatch :: "jsstring \<Rightarrow> (jsstring \<times> jsstring) option" where
  "actionMatch [] = matchActionAt []"
| "actionMatch (c # cs) =
     (case matchActionAt (c # cs) of
        Some m \<Rightarrow> Some m
      | None \<Rightarrow> actionMatch cs)"

text \<open>
  The classifier, with the list of entries that \<^verbatim>\<open>find\<close> scans as a parameter.
  \<^verbatim>\<open>find\<close> yields the first entry whose keyword the response starts with, or
  \<^verbatim>\<open>undefined\<close>. The \<^verbatim>\<open>Action\<close> case falls through to \<^verbatim>\<open>default\<close> when the pattern
  does not match.
\<close>

definition findType :: "(AgentActivityType \<times> jsstring) list \<Rightarrow> jsstring \<Rightarrow> AgentActivityType option" where
  "findType entries response =
     map_option fst (find (\<lambda>(t, keyword). startsWith response keyword) entries)"

definition classifyWith :: "(AgentActivityType \<times> jsstring) list \<Rightarrow> jsstring \<Rightarrow> exn + Content" where
  "classifyWith entries response =
     (case findType entries response of
        None \<Rightarrow> Inl (UnreachableCaseError (js ''undefined''))
      | Some Type_Thought \<Rightarrow>
          Inr (Thought (trim (replace (keywordOf Type_Thought) [] response)))
      | Some Type_Response \<Rightarrow>
          Inr (Response (trim (replace (keywordOf Type_Response) [] response)))
      | Some Type_Elicitation \<Rightarrow>
          Inr (Elicitation (trim (replace (keywordOf Type_Elicitation) [] response)))
      | Some Type_Error \<Rightarrow>
          Inr (Error (trim (replace (keywordOf Type_Error) [] response)))
      | Some Type_Action \<Rightarrow>
          (case actionMatch response of
             Some (toolNameRaw, params) \<Rightarrow>
               if \<not> isToolName toolNameRaw then
                 Inl (JsError (js ''Invalid tool name: '' @ toolNameRaw))
               else
                 Inr (Action toolNameRaw (if params = [] then None else Some params) None)
           | None \<Rightarrow> Inl (UnreachableCaseError (js ''action''))))"

definition mapResponseToLinearActivityContent :: "jsstring \<Rightarrow> exn + Content" where
  "mapResponseToLinearActivityContent response = classifyWith typeToKeyword response"

section \<open>The agent's surroundings\<close>

text \<open>
  The model, the tools and the activity sink are outside the agent. The model and
  the tools are functions of an outside world \<open>'w\<close> that they may change and
  that decides what they answer; each may throw. A tool's value \<open>'v\<close> reaches the
  agent only through \<^verbatim>\<open>JSON.stringify\<close>. The tools are called as the agent calls
  them: \<^verbatim>\<open>getCoordinates(text)\<close> and \<^verbatim>\<open>getWeather(first, second)\<close>.
  \<^verbatim>\<open>createAgentActivity\<close> appends to the session's activities; a rejected
  publication is outside this model. Every activity of a turn goes to the one
  session the turn was started for, so the session id is left out.
\<close>

datatype role = System | User | Assistant

type_synonym message = "role \<times> jsstring"

datatype event =
    ModelCall "message list"
  | Publish Content
  | CallGetCoordinates jsstring
  | CallGetWeather jsnum jsnum
  | Sleep nat

record ('w, 'v) env =
  chatCompletionsCreate :: "message list \<Rightarrow> 'w \<Rightarrow> (exn + jsstring option) \<times> 'w"
  getCoordinates :: "jsstring \<Rightarrow> 'w \<Rightarrow> (exn + 'v) \<times> 'w"
  getWeather :: "jsnum \<Rightarrow> jsnum \<Rightarrow> 'w \<Rightarrow> (exn + 'v) \<times> 'w"
  JSON_stringify :: "'v \<Rightarrow> jsstring"
  prompt :: jsstring

record 'w state =
  trace :: "event list"
  world :: 'w

definition emit :: "event \<Rightarrow> 'w state \<Rightarrow> 'w state" where
  "emit ev st = st\<lparr>trace := trace st @ [ev]\<rparr>"

definition createAgentActivity :: "Content \<Rightarrow> 'w state \<Rightarrow> 'w state" where
  "createAgentActivity content st = emit (Publish content) st"

definition sleep :: "nat \<Rightarrow> 'w state \<Rightarrow> 'w state" where
  "sleep ms st = emit (Sleep ms) st"

text \<open>What a trace shows: the activities published, in order, and the model calls.\<close>

fun published :: "event list \<Rightarrow> Content list" where
  "published [] = []"
| "published (Publish c # evs) = c # published evs"
| "published (ev # evs) = published evs"

fun modelCalls :: "event list \<Rightarrow> nat" where
  "modelCalls [] = 0"
| "modelCalls (ModelCall ms # evs) = Suc (modelCalls evs)"
| "modelCalls (ev # evs) = modelCalls evs"

section \<open>Calling the model (AgentClient.callOpenAI)\<close>

text \<open>
  A missing or empty content becomes \<^verbatim>\<open>"No response"\<close>; whatever the API throws is
  thrown again as an \<^verbatim>\<open>Error\<close> with the prefix \<^verbatim>\<open>OpenAI API error:\<close>.
\<close>

definition callOpenAI :: "('w, 'v) env \<Rightarrow> message list \<Rightarrow> 'w state \<Rightarrow> (exn + jsstring) \<times> 'w state" where
  "callOpenAI env messages st =
     (let st1 = emit (ModelCall messages) st in
      case chatCompletionsCreate env messages (world st1) of
        (Inl e, w) \<Rightarrow>
          (Inl (JsError (js ''OpenAI API error: '' @ errorMessage e)), st1\<lparr>world := w\<rparr>)
      | (Inr content, w) \<Rightarrow>
          (Inr (case content of
                  None \<Rightarrow> js ''No response''
                | Some c \<Rightarrow> if c = [] then js ''No response'' else c),
           st1\<lparr>world := w\<rparr>))"

section \<open>Executing an action (AgentClient.executeAction)\<close>

text \<open>\<^verbatim>\<open>x || null\<close> on a string or null: the empty string is falsy.\<close>

definition orNull :: "jsstring option \<Rightarrow> jsstring option" where
  "orNull p = (case p of None \<Rightarrow> None | Some s \<Rightarrow> if s = [] then None else Some s)"

definition invokeTool ::
  "event \<Rightarrow> ('w \<Rightarrow> (exn + 'v) \<times> 'w) \<Rightarrow> ('v \<Rightarrow> jsstring) \<Rightarrow> 'w state \<Rightarrow> (exn + jsstring) \<times> 'w state" where
  "invokeTool ev tool stringify st =
     (let st1 = emit ev st in
      case tool (world st1) of
        (Inl e, w) \<Rightarrow> (Inl e, st1\<lparr>world := w\<rparr>)
      | (Inr v, w) \<Rightarrow> (Inr (stringify v), st1\<lparr>world := w\<rparr>))"

text \<open>
  The \<^verbatim>\<open>switch\<close> has the cases \<^verbatim>\<open>"getCoordinates"\<close> and \<^verbatim>\<open>"getWeather"\<close> and a
  \<^verbatim>\<open>default\<close> that throws. For \<^verbatim>\<open>getWeather\<close> the first parsed field is named
  \<^verbatim>\<open>lat\<close>, the second \<^verbatim>\<open>lng\<close>, and the call is \<^verbatim>\<open>getWeather(lng, lat)\<close>.
\<close>

definition paramParts :: "jsstring \<Rightarrow> jsnum list" where
  "paramParts parameter = map (\<lambda>p. parseFloat (trim p)) (split 0x2C parameter)"

definition switchAction ::
  "('w, 'v) env \<Rightarrow> ToolName \<Rightarrow> jsstring \<Rightarrow> 'w state \<Rightarrow> (exn + jsstring) \<times> 'w state" where
  "switchAction env action parameter st =
     (if action = js ''getCoordinates'' then
        invokeTool (CallGetCoordinates (removeQuotes parameter))
          (getCoordinates env (removeQuotes parameter)) (JSON_stringify env) st
      else if action = js ''getWeather'' then
        (if length (paramParts parameter) \<ge> 2
            \<and> \<not> isNaN (paramParts parameter ! 0)
            \<and> \<not> isNaN (paramParts parameter ! 1) then
           let lat = paramParts parameter ! 0;
               lng = paramParts parameter ! 1
           in invokeTool (CallGetWeather lng lat)
                (getWeather env lng lat) (JSON_stringify env) st
         else (Inl (JsError (js ''Invalid parameter for getWeather action'')), st))
      else (Inl (UnreachableCaseError action), st))"

text \<open>The guard \<^verbatim>\<open>!parameter\<close> in front of the \<^verbatim>\<open>switch\<close>: null and the empty string throw.\<close>

definition executeAction ::
  "('w, 'v) env \<Rightarrow> ToolName \<Rightarrow> jsstring option \<Rightarrow> 'w state \<Rightarrow> (exn + jsstring) \<times> 'w state" where
  "executeAction env action parameter st =
     (case orNull parameter of
        None \<Rightarrow> (Inl (JsError (js ''Parameter is required for action execution'')), st)
      | Some p \<Rightarrow> switchAction env action p st)"

section \<open>The agentic loop (AgentClient.handleUserPrompt)\<close>

definition catchError :: "exn \<Rightarrow> 'w state \<Rightarrow> 'w state" where
  "catchError e st = createAgentActivity (Error (js ''Agent error: '' @ errorMessage e)) st"

text \<open>
  One pass through the body of the \<^verbatim>\<open>while\<close> loop: the new \<^verbatim>\<open>taskComplete\<close>, the
  new conversation and the new state. Anything thrown inside the \<^verbatim>\<open>try\<close> ends in
  the \<^verbatim>\<open>catch\<close> block, which publishes an error activity and completes the task;
  the conversation is extended only after the tool has returned.
\<close>

definition loopBody ::
  "('w, 'v) env \<Rightarrow> message list \<Rightarrow> 'w state \<Rightarrow> bool \<times> message list \<times> 'w state" where
  "loopBody env messages st =
     (case callOpenAI env messages st of
        (Inl e, st1) \<Rightarrow> (True, messages, catchError e st1)
      | (Inr response, st1) \<Rightarrow>
          (case mapResponseToLinearActivityContent response of
             Inl e \<Rightarrow> (True, messages, catchError e st1)
           | Inr (Thought b) \<Rightarrow>
               (False, messages @ [(Assistant, response)],
                sleep 1000 (createAgentActivity (Thought b) st1))
           | Inr (Action toolName parameter r) \<Rightarrow>
               (case executeAction env toolName parameter
                       (createAgentActivity (Action toolName parameter r) st1) of
                  (Inl e, st2) \<Rightarrow> (True, messages, catchError e st2)
                | (Inr toolResult, st2) \<Rightarrow>
                    (False,
                     messages @ [(Assistant, response),
                                 (User, js ''Tool result: '' @ toolResult)],
                     sleep 1000
                       (createAgentActivity
                          (Action toolName (orNull parameter) (Some toolResult)) st2)))
           | Inr (Response b) \<Rightarrow> (True, messages, createAgentActivity (Response b) st1)
           | Inr (Error b) \<Rightarrow> (True, messages, createAgentActivity (Error b) st1)
           | Inr (Elicitation b) \<Rightarrow> (True, messages, createAgentActivity (Elicitation b) st1)))"

function agentLoop ::
  "('w, 'v) env \<Rightarrow> nat \<Rightarrow> bool \<Rightarrow> nat \<Rightarrow> message list \<Rightarrow> 'w state
     \<Rightarrow> bool \<times> nat \<times> message list \<times> 'w state" where
  "agentLoop env maxIterations taskComplete iterations messages st =
     (if \<not> taskComplete \<and> iterations < maxIterations then
        (case loopBody env messages st of
           (taskComplete', messages', st') \<Rightarrow>
             agentLoop env maxIterations taskComplete' (iterations + 1) messages' st')
      else (taskComplete, iterations, messages, st))"
  by pat_completeness auto
termination
  by (relation "measure (\<lambda>(env, maxIterations, taskComplete, iterations, messages, st).
        maxIterations - iterations)") auto

definition maxIterationsMessage :: jsstring where
  "maxIterationsMessage =
     js ''The agent has reached the maximum number of iterations and will now stop.''"

text \<open>The loop from any point of a turn, followed by the check after the loop.\<close>

definition turnFrom ::
  "('w, 'v) env \<Rightarrow> nat \<Rightarrow> bool \<Rightarrow> nat \<Rightarrow> message list \<Rightarrow> 'w state \<Rightarrow> 'w state" where
  "turnFrom env maxIterations taskComplete iterations messages st =
     (case agentLoop env maxIterations taskComplete iterations messages st of
        (taskComplete', iterations', messages', st') \<Rightarrow>
          if \<not> taskComplete' \<and> iterations' \<ge> maxIterations then
            createAgentActivity (Error maxIterationsMessage) st'
          else st')"

definition MAX_ITERATIONS :: nat where
  "MAX_ITERATIONS = 10"

definition handleUserPromptWith ::
  "nat \<Rightarrow> ('w, 'v) env \<Rightarrow> jsstring \<Rightarrow> 'w \<Rightarrow> 'w state" where
  "handleUserPromptWith maxIterations env userPrompt w =
     turnFrom env maxIterations False 0
       [(System, prompt env), (User, userPrompt)] \<lparr>trace = [], world = w\<rparr>"

definition handleUserPrompt :: "('w, 'v) env \<Rightarrow> jsstring \<Rightarrow> 'w \<Rightarrow> 'w state" where
  "handleUserPrompt env userPrompt w = handleUserPromptWith MAX_ITERATIONS env userPrompt w"

section \<open>The tools (tools.ts)\<close>

text \<open>
  Each tool sends one request with \<^verbatim>\<open>fetch\<close> and turns the answer into its result.
  What the upstream service does is a parameter: the request fails in the network,
  or the response head arrives after some milliseconds, or nothing ever arrives.
  A response has \<^verbatim>\<open>ok\<close>, \<^verbatim>\<open>status\<close>, \<^verbatim>\<open>statusText\<close> and what \<^verbatim>\<open>await response.json()\<close>
  gives: an exception for a body that is not JSON, or the data at the type the tool
  asserts for it, \<open>None\<close> standing for \<^verbatim>\<open>null\<close>. Reading the body is taken to settle.
  The request URL is built from the tool's arguments and decides nothing in the
  tool itself, so the arguments are kept only as parameters.
\<close>

datatype 'd httpResponse =
  HttpResponse (response_ok: bool) (response_status: nat) (response_statusText: jsstring)
    (response_json: "exn + 'd")

datatype 'd upstream =
    NetworkError exn
  | Answers nat "'d httpResponse"
  | Silent

text \<open>
  \<^verbatim>\<open>await fetch(url)\<close> without a signal: \<open>None\<close> when the promise never settles.
\<close>

definition fetch :: "'d upstream \<Rightarrow> (exn + 'd httpResponse) option" where
  "fetch up =
     (case up of
        NetworkError e \<Rightarrow> Some (Inl e)
      | Answers ms response \<Rightarrow> Some (Inr response)
      | Silent \<Rightarrow> None)"

text \<open>
  \<^verbatim>\<open>await fetch(url, {signal})\<close> with \<^verbatim>\<open>setTimeout(() => controller.abort(), timeoutMs)\<close>:
  a request that has not settled when the timer fires is rejected with the
  platform's abort error.
\<close>

definition fetchWithAbort :: "exn \<Rightarrow> nat \<Rightarrow> 'd upstream \<Rightarrow> (exn + 'd httpResponse) option" where
  "fetchWithAbort abortError timeoutMs up =
     (case up of
        NetworkError e \<Rightarrow> Some (Inl e)
      | Answers ms response \<Rightarrow> if ms < timeoutMs then Some (Inr response) else Some (Inl abortError)
      | Silent \<Rightarrow> Some (Inl abortError))"

text \<open>A status code in a template literal: its decimal digits.\<close>

function showNat :: "nat \<Rightarrow> jsstring" where
  "showNat n =
     (if n < 10 then [of_nat (48 + n)]
      else showNat (n div 10) @ [of_nat (48 + n mod 10)])"
  by pat_completeness auto
termination
  by (relation "measure (\<lambda>n. n)") auto

text \<open>
  \<^verbatim>\<open>try { ... } catch (error) { return ... }\<close>: the result of a tool is a value or an
  exception that leaves the tool; the handler turns what the body throws into a
  value.
\<close>

definition tryCatch :: "(exn + 'a) \<Rightarrow> (exn \<Rightarrow> 'a) \<Rightarrow> exn + 'a" where
  "tryCatch body handler = (case body of Inl e \<Rightarrow> Inr (handler e) | Inr v \<Rightarrow> Inr v)"

subsection \<open>getCoordinates\<close>

datatype place = Place (place_lat: jsstring) (place_lon: jsstring) (place_display_name: jsstring)

datatype coordinatesResult =
    Coordinates jsnum jsnum jsstring
  | CoordinatesError jsstring

definition getCoordinatesTry :: "exn + place list option httpResponse \<Rightarrow> exn + coordinatesResult" where
  "getCoordinatesTry fetched =
     (case fetched of
        Inl e \<Rightarrow> Inl e
      | Inr response \<Rightarrow>
          if \<not> response_ok response then
            Inr (CoordinatesError
                   (js ''OpenStreetMap API error: '' @ showNat (response_status response)
                      @ js '' '' @ response_statusText response))
          else
            (case response_json response of
               Inl e \<Rightarrow> Inl e
             | Inr data \<Rightarrow>
                 (case data of
                    Some (result # others) \<Rightarrow>
                      Inr (Coordinates (parseFloat (place_lat result))
                             (parseFloat (place_lon result)) (place_display_name result))
                  | _ \<Rightarrow> Inr (CoordinatesError (js ''Location not found'')))))"

definition getCoordinatesTool ::
  "jsstring \<Rightarrow> place list option upstream \<Rightarrow> (exn + coordinatesResult) option" where
  "getCoordinatesTool city_name up =
     map_option
       (\<lambda>fetched. tryCatch (getCoordinatesTry fetched)
          (\<lambda>e. CoordinatesError (js ''Failed to get coordinates: '' @ errorMessage e)))
       (fetch up)"

subsection \<open>getWeather\<close>

text \<open>
  The numbers of a JSON body are finite binary64 values, taken here as reals; how
  a number prints in a template literal is a parameter. The degree sign of the
  source text is stored as the two code units \<^verbatim>\<open>U+00C2 U+00B0\<close>.
\<close>

datatype current = Current (temperature_2m: real) (weathercode: real)

datatype weatherData = WeatherData (weather_current: "current option")

definition weatherCodes :: "(real \<times> jsstring) list" where
  "weatherCodes =
     [(0, js ''clear sky''),
      (1, js ''mainly clear''),
      (2, js ''partly cloudy''),
      (3, js ''overcast''),
      (45, js ''fog''),
      (48, js ''depositing rime fog''),
      (51, js ''light drizzle''),
      (53, js ''moderate drizzle''),
      (55, js ''dense drizzle''),
      (56, js ''light freezing drizzle''),
      (57, js ''dense freezing drizzle''),
      (61, js ''slight rain''),
      (63, js ''moderate rain''),
      (65, js ''heavy rain''),
      (66, js ''light freezing rain''),
      (67, js ''heavy freezing rain''),
      (71, js ''slight snow''),
      (73, js ''moderate snow''),
      (75, js ''heavy snow''),
      (77, js ''snow grains''),
      (80, js ''slight rain showers''),
      (81, js ''moderate rain showers''),
      (82, js ''violent rain showers''),
      (85, js ''slight snow showers''),
      (86, js ''heavy snow showers''),
      (95, js ''thunderstorm''),
      (96, js ''thunderstorm with slight hail''),
      (99, js ''thunderstorm with heavy hail'')]"

definition getWeatherDescription :: "real \<Rightarrow> jsstring" where
  "getWeatherDescription code =
     (case map_of weatherCodes code of
        Some description \<Rightarrow> description
      | None \<Rightarrow> js ''unknown weather'')"

definition getWeatherTry ::
  "(real \<Rightarrow> jsstring) \<Rightarrow> exn + weatherData option httpResponse \<Rightarrow> exn + jsstring" where
  "getWeatherTry numberToString fetched =
     (case fetched of
        Inl e \<Rightarrow> Inl e
      | Inr response \<Rightarrow>
          (case response_json response of
             Inl e \<Rightarrow> Inl e
           | Inr data \<Rightarrow>
               (case data of
                  Some (WeatherData (Some c)) \<Rightarrow>
                    Inr (numberToString (temperature_2m c) @ [0xC2, 0xB0] @ js ''C, ''
                           @ getWeatherDescription (weathercode c))
                | _ \<Rightarrow> Inr (js ''Weather data not available''))))"

definition getWeatherTool ::
  "(real \<Rightarrow> jsstring) \<Rightarrow> real \<times> real \<Rightarrow> weatherData option upstream \<Rightarrow> (exn + jsstring) option" where
  "getWeatherTool numberToString params up =
     map_option
       (\<lambda>fetched. tryCatch (getWeatherTry numberToString fetched)
          (\<lambda>e. js ''Failed to get weather: '' @ errorMessage e))
       (fetch up)"

subsection \<open>getTime\<close>

datatype timeData =
  TimeData (time_date: jsstring) (time_time: jsstring) (time_timeZone: jsstring)
    (time_dayOfWeek: jsstring) (time_dstActive: bool)

definition getTimeTry :: "exn + timeData option httpResponse \<Rightarrow> exn + jsstring" where
  "getTimeTry fetched =
     (case fetched of
        Inl e \<Rightarrow> Inl e
      | Inr response \<Rightarrow>
          if \<not> response_ok response then
            Inr (js ''Time API error: '' @ showNat (response_status response)
                   @ js '' '' @ response_statusText response)
          else
            (case response_json response of
               Inl e \<Rightarrow> Inl e
             | Inr data \<Rightarrow>
                 (case data of
                    Some d \<Rightarrow>
                      Inr (time_dayOfWeek d @ js '', '' @ time_date d @ js '' at '' @ time_time d
                             @ js '' '' @ time_timeZone d
                             @ (if time_dstActive d then js '' (DST active)'' else []))
                  | None \<Rightarrow> Inr (js ''Time data not available''))))"

definition getTimeTool ::
  "exn \<Rightarrow> real \<times> real \<Rightarrow> timeData option upstream \<Rightarrow> (exn + jsstring) option" where
  "getTimeTool abortError params up =
     map_option
       (\<lambda>fetched. tryCatch (getTimeTry fetched)
          (\<lambda>e. js ''Failed to get time: '' @ errorMessage e))
       (fetchWithAbort abortError 60000 up)"

section \<open>Notions used in the properties\<close>

text \<open>\<open>occurs pat s\<close>: the string \<open>pat\<close> occurs somewhere in \<open>s\<close>.\<close>

fun occurs :: "jsstring \<Rightarrow> jsstring \<Rightarrow> bool" where
  "occurs pat [] \<longleftrightarrow> pat = []"
| "occurs pat (c # cs) \<longleftrightarrow> prefix pat (c # cs) \<or> occurs pat cs"

text \<open>A model that answers every request with a text that starts with \<^verbatim>\<open>THINKING:\<close>.\<close>

definition alwaysThinking :: "('w, 'v) env \<Rightarrow> bool" where
  "alwaysThinking env \<longleftrightarrow>
     (\<forall>messages w. \<exists>text w'.
        chatCompletionsCreate env messages w = (Inr (Some (js ''THINKING:'' @ text)), w'))"

fun isThought :: "Content \<Rightarrow> bool" where
  "isThought (Thought b) = True"
| "isThought c = False"

text \<open>
  Surroundings for concrete runs: the world is the number of model calls made so
  far, the model answers with the entry of a script at that position (and has no
  content once the script is used up), and the tools answer with fixed texts.
\<close>

definition scripted :: "jsstring list \<Rightarrow> (nat, jsstring) env" where
  "scripted replies =
     \<lparr> chatCompletionsCreate =
         (\<lambda>messages n. (Inr (if n < length replies then Some (replies ! n) else None), Suc n)),
       getCoordinates = (\<lambda>city n. (Inr (js ''coordinates''), n)),
       getWeather = (\<lambda>first second n. (Inr (js ''weather''), n)),
       JSON_stringify = (\<lambda>v. v),
       prompt = js ''instructions'' \<rparr>"

text \<open>A model that only ever thinks.\<close>

definition ponderer :: "(unit, jsstring) env" where
  "ponderer =
     \<lparr> chatCompletionsCreate = (\<lambda>messages u. (Inr (Some (js ''THINKING: let me think'')), u)),
       getCoordinates = (\<lambda>city u. (Inr (js ''coordinates''), u)),
       getWeather = (\<lambda>first second u. (Inr (js ''weather''), u)),
       JSON_stringify = (\<lambda>v. v),
       prompt = js ''instructions'' \<rparr>"

section \<open>Lemmas\<close>

lemma keyword_not_prefix:
  "t1 \<noteq> t2 \<Longrightarrow> \<not> prefix (keywordOf t1) (keywordOf t2)"
  by (cases t1; cases t2; simp add: js_def)

lemma keyword_unique:
  assumes "prefix (keywordOf t1) s" and "prefix (keywordOf t2) s"
  shows "t1 = t2"
proof (rule ccontr)
  assume ne: "t1 \<noteq> t2"
  from assms have "prefix (keywordOf t1) (keywordOf t2) \<or> prefix (keywordOf t2) (keywordOf t1)"
    using prefix_same_cases by blast
  with ne keyword_not_prefix [of t1 t2] keyword_not_prefix [of t2 t1] show False
    by auto
qed

lemma typeToKeyword_set:
  "(t, k) \<in> set typeToKeyword \<longleftrightarrow> k = keywordOf t"
  by (cases t) (auto simp: typeToKeyword_def)

lemma findType_Some_iff:
  assumes "set entries = set typeToKeyword"
  shows "findType entries response = Some t \<longleftrightarrow> prefix (keywordOf t) response"
proof
  assume "findType entries response = Some t"
  then obtain k where f: "find (\<lambda>(t, keyword). startsWith response keyword) entries = Some (t, k)"
    by (auto simp: findType_def)
  then have "(t, k) \<in> set entries" and "startsWith response k"
    by (auto simp: find_Some_iff in_set_conv_nth)
  with assms show "prefix (keywordOf t) response"
    by (simp add: typeToKeyword_set startsWith_def)
next
  assume p: "prefix (keywordOf t) response"
  have "(t, keywordOf t) \<in> set entries"
    using assms by (simp add: typeToKeyword_set)
  with p have "find (\<lambda>(t, keyword). startsWith response keyword) entries \<noteq> None"
    by (auto simp: find_None_iff startsWith_def)
  then obtain t' k' where f: "find (\<lambda>(t, keyword). startsWith response keyword) entries = Some (t', k')"
    by auto
  then have "(t', k') \<in> set entries" and "startsWith response k'"
    by (auto simp: find_Some_iff in_set_conv_nth)
  with assms have "prefix (keywordOf t') response"
    by (simp add: typeToKeyword_set startsWith_def)
  with p have "t' = t" using keyword_unique by blast
  with f show "findType entries response = Some t"
    by (simp add: findType_def)
qed

lemma findType_order:
  assumes "set entries = set typeToKeyword"
  shows "findType entries response = findType typeToKeyword response"
proof (cases "findType typeToKeyword response")
  case None
  have "findType entries response = None"
  proof (rule ccontr)
    assume "findType entries response \<noteq> None"
    then obtain t where "findType entries response = Some t" by auto
    then have "prefix (keywordOf t) response" using assms by (simp add: findType_Some_iff)
    then have "findType typeToKeyword response = Some t" by (simp add: findType_Some_iff)
    with None show False by simp
  qed
  with None show ?thesis by simp
next
  case (Some t)
  then have "prefix (keywordOf t) response" by (simp add: findType_Some_iff)
  then have "findType entries response = Some t" using assms by (simp add: findType_Some_iff)
  with Some show ?thesis by simp
qed

lemma replace_prefix:
  "prefix pat s \<Longrightarrow> replace pat rep s = rep @ drop (length pat) s"
  by (cases s) auto

lemma findType_keyword:
  "startsWith response (keywordOf t) \<Longrightarrow> findType typeToKeyword response = Some t"
  by (simp add: findType_Some_iff startsWith_def)

lemma actionMatch_nonempty:
  "matchActionAt s = Some (n, p) \<Longrightarrow> n \<noteq> [] \<and> p \<noteq> []"
  by (auto simp: matchActionAt_def Let_def split: if_splits list.splits)

lemma actionMatch_suffix:
  "actionMatch s = Some m \<Longrightarrow> \<exists>t. suffix t s \<and> matchActionAt t = Some m"
proof (induction s)
  case Nil
  then show ?case by auto
next
  case (Cons c cs)
  show ?case
  proof (cases "matchActionAt (c # cs)")
    case None
    with Cons.prems have "actionMatch cs = Some m" by simp
    with Cons.IH obtain t where "suffix t cs" "matchActionAt t = Some m" by auto
    then show ?thesis by (auto intro: suffix_ConsI)
  next
    case (Some a)
    with Cons.prems have "matchActionAt (c # cs) = Some m" by simp
    then show ?thesis by auto
  qed
qed

lemma actionMatch_params_nonempty:
  "actionMatch s = Some (n, p) \<Longrightarrow> n \<noteq> [] \<and> p \<noteq> []"
  using actionMatch_suffix actionMatch_nonempty by blast

lemma occurs_iff: "occurs pat s \<longleftrightarrow> (\<exists>t. suffix t s \<and> prefix pat t)"
  by (induction s) (auto simp: suffix_Cons)

lemma wordChar_not_whiteSpace: "isWordChar c \<Longrightarrow> \<not> isWhiteSpace c"
  by (auto simp: isWordChar_def isWhiteSpace_def isDigit_def word_le_nat_alt)

lemma matchActionAt_prefix: "matchActionAt t = Some m \<Longrightarrow> prefix (js ''ACTION:'') t"
  by (simp add: matchActionAt_def split: if_splits)

lemma matchActionAt_empty_arguments:
  assumes "list_all isWhiteSpace sp" and "list_all isWordChar name"
  shows "matchActionAt (js ''ACTION:'' @ sp @ name @ js ''()'' @ rest) = None"
proof -
  have d: "drop 7 (js ''ACTION:'' @ sp @ name @ js ''()'' @ rest) = sp @ name @ js ''()'' @ rest"
    by (simp add: js_def)
  have nw: "\<not> isWhiteSpace 0x28" "\<not> isWordChar 0x28"
    by (simp_all add: isWhiteSpace_def isWordChar_def isDigit_def)
  have a: "dropWhile isWhiteSpace (sp @ name @ js ''()'' @ rest) = name @ js ''()'' @ rest"
  proof (cases name)
    case Nil
    with assms(1) nw show ?thesis
      by (simp add: js_def list_all_iff dropWhile_append)
  next
    case (Cons n ns)
    with assms(2) have "\<not> isWhiteSpace n" by (simp add: wordChar_not_whiteSpace)
    with Cons assms(1) show ?thesis
      by (simp add: list_all_iff dropWhile_append)
  qed
  have t: "takeWhile isWordChar (name @ js ''()'' @ rest) = name"
    using assms(2) nw by (simp add: js_def list_all_iff takeWhile_append)
  have r: "dropWhile isWordChar (name @ js ''()'' @ rest) = js ''()'' @ rest"
    using assms(2) nw by (simp add: js_def list_all_iff dropWhile_append)
  show ?thesis
    unfolding matchActionAt_def d a t r Let_def
    by (simp add: js_def)
qed

lemma no_keyword_in_parens:
  assumes "\<not> occurs (js ''ACTION:'') rest" and "suffix t (js ''()'' @ rest)"
  shows "\<not> prefix (js ''ACTION:'') t"
proof
  assume p: "prefix (js ''ACTION:'') t"
  from assms(2) have "t = js ''()'' @ rest \<or> t = js '')'' @ rest \<or> suffix t rest"
    by (auto simp: js_def suffix_Cons)
  then show False
  proof (elim disjE)
    assume "t = js ''()'' @ rest" with p show False by (simp add: js_def)
  next
    assume "t = js '')'' @ rest" with p show False by (simp add: js_def)
  next
    assume "suffix t rest" with p assms(1) show False by (auto simp: occurs_iff)
  qed
qed

lemma no_keyword_in_name:
  assumes "list_all isWordChar name" and "\<not> occurs (js ''ACTION:'') rest"
    and "suffix t (name @ js ''()'' @ rest)"
  shows "\<not> prefix (js ''ACTION:'') t"
proof
  assume p: "prefix (js ''ACTION:'') t"
  from assms(3) consider "suffix t (js ''()'' @ rest)"
    | n where "suffix n name" "t = n @ js ''()'' @ rest"
    by (auto simp: suffix_append)
  then show False
  proof cases
    case 1
    with assms(2) p show False using no_keyword_in_parens by blast
  next
    case 2
    from 2(1) assms(1) have w: "\<forall>c \<in> set n. isWordChar c"
      by (auto simp: list_all_iff dest: set_mono_suffix)
    have colon: "0x3A \<in> set (js ''ACTION:'')" "\<not> isWordChar 0x3A" "0x28 \<notin> set (js ''ACTION:'')"
      by (simp_all add: js_def isWordChar_def isDigit_def)
    from p 2(2) have "prefix (js ''ACTION:'') n
        \<or> (\<exists>us. js ''ACTION:'' = n @ us \<and> prefix us (js ''()'' @ rest))"
      by (simp add: prefix_append)
    then show False
    proof
      assume "prefix (js ''ACTION:'') n"
      then have "set (js ''ACTION:'') \<subseteq> set n" by (rule set_mono_prefix)
      with colon w show False by blast
    next
      assume "\<exists>us. js ''ACTION:'' = n @ us \<and> prefix us (js ''()'' @ rest)"
      then obtain us where us: "js ''ACTION:'' = n @ us" "prefix us (js ''()'' @ rest)" by blast
      show False
      proof (cases us)
        case Nil
        with us(1) colon w show False by auto
      next
        case (Cons u us')
        with us(2) have "u = 0x28" by (simp add: js_def)
        with Cons us(1) have "0x28 \<in> set (js ''ACTION:'')" by simp
        with colon show False by blast
      qed
    qed
  qed
qed

lemma no_keyword_in_space:
  assumes "list_all isWhiteSpace sp" and "list_all isWordChar name"
    and "\<not> occurs (js ''ACTION:'') rest"
    and "suffix t (sp @ name @ js ''()'' @ rest)"
  shows "\<not> prefix (js ''ACTION:'') t"
proof
  assume p: "prefix (js ''ACTION:'') t"
  from assms(4) consider "suffix t (name @ js ''()'' @ rest)"
    | s where "suffix s sp" "t = s @ name @ js ''()'' @ rest" "s \<noteq> []"
    by (cases "t = name @ js ''()'' @ rest") (auto simp: suffix_append)
  then show False
  proof cases
    case 1
    with assms(2,3) p show False using no_keyword_in_name by blast
  next
    case 2
    then obtain c cs where s: "s = c # cs" by (cases s) auto
    with 2(1) assms(1) have "isWhiteSpace c"
      by (auto simp: list_all_iff dest: set_mono_suffix)
    moreover from p 2(2) s have "c = 0x41" by (simp add: js_def)
    ultimately show False by (simp add: isWhiteSpace_def)
  qed
qed

lemma no_keyword_later:
  assumes "list_all isWhiteSpace sp" and "list_all isWordChar name"
    and "\<not> occurs (js ''ACTION:'') rest"
    and "suffix t (js ''ACTION:'' @ sp @ name @ js ''()'' @ rest)"
    and "t \<noteq> js ''ACTION:'' @ sp @ name @ js ''()'' @ rest"
  shows "\<not> prefix (js ''ACTION:'') t"
proof
  assume p: "prefix (js ''ACTION:'') t"
  from assms(4) consider "suffix t (sp @ name @ js ''()'' @ rest)"
    | k where "suffix k (js ''ACTION:'')" "t = k @ sp @ name @ js ''()'' @ rest"
    by (auto simp: suffix_append)
  then show False
  proof cases
    case 1
    with assms(1,2,3) p show False using no_keyword_in_space by blast
  next
    case 2
    from 2(1) have "k \<in> set (suffixes (js ''ACTION:''))" by simp
    then have "k = [] \<or> k = js '':'' \<or> k = js ''N:'' \<or> k = js ''ON:'' \<or> k = js ''ION:''
        \<or> k = js ''TION:'' \<or> k = js ''CTION:'' \<or> k = js ''ACTION:''"
      by (auto simp: js_def)
    with 2(2) assms(5) p have "k = []" by (auto simp: js_def)
    with 2(2) have "suffix t (sp @ name @ js ''()'' @ rest)" by simp
    with assms(1,2,3) p show False using no_keyword_in_space by blast
  qed
qed

lemma actionMatch_empty_arguments:
  assumes "list_all isWhiteSpace sp" and "list_all isWordChar name"
    and "\<not> occurs (js ''ACTION:'') rest"
  shows "actionMatch (js ''ACTION:'' @ sp @ name @ js ''()'' @ rest) = None"
proof (rule ccontr)
  assume "actionMatch (js ''ACTION:'' @ sp @ name @ js ''()'' @ rest) \<noteq> None"
  then obtain m where "actionMatch (js ''ACTION:'' @ sp @ name @ js ''()'' @ rest) = Some m"
    by auto
  then obtain t where t: "suffix t (js ''ACTION:'' @ sp @ name @ js ''()'' @ rest)"
    "matchActionAt t = Some m"
    using actionMatch_suffix by blast
  show False
  proof (cases "t = js ''ACTION:'' @ sp @ name @ js ''()'' @ rest")
    case True
    with t(2) assms(1,2) show False by (simp add: matchActionAt_empty_arguments)
  next
    case False
    with assms t(1) have "\<not> prefix (js ''ACTION:'') t" by (rule no_keyword_later)
    with t(2) show False using matchActionAt_prefix by blast
  qed
qed

declare agentLoop.simps [simp del]

lemma trace_emit [simp]: "trace (emit ev st) = trace st @ [ev]"
  and world_emit [simp]: "world (emit ev st) = world st"
  by (simp_all add: emit_def)

lemma trace_createAgentActivity [simp]:
  "trace (createAgentActivity c st) = trace st @ [Publish c]"
  and world_createAgentActivity [simp]: "world (createAgentActivity c st) = world st"
  by (simp_all add: createAgentActivity_def)

lemma trace_sleep [simp]: "trace (sleep ms st) = trace st @ [Sleep ms]"
  and world_sleep [simp]: "world (sleep ms st) = world st"
  by (simp_all add: sleep_def)

lemma trace_catchError [simp]:
  "trace (catchError e st) = trace st @ [Publish (Error (js ''Agent error: '' @ errorMessage e))]"
  and world_catchError [simp]: "world (catchError e st) = world st"
  by (simp_all add: catchError_def)

lemma published_append [simp]: "published (xs @ ys) = published xs @ published ys"
  by (induction xs rule: published.induct) auto

lemma modelCalls_append [simp]: "modelCalls (xs @ ys) = modelCalls xs + modelCalls ys"
  by (induction xs rule: modelCalls.induct) auto

lemma callOpenAI_trace:
  "callOpenAI env messages st = (r, st1) \<Longrightarrow> trace st1 = trace st @ [ModelCall messages]"
  by (auto simp: callOpenAI_def Let_def split: prod.splits sum.splits)

lemma invokeTool_trace:
  "invokeTool ev tool stringify st = (r, st1) \<Longrightarrow> trace st1 = trace st @ [ev]"
  by (auto simp: invokeTool_def Let_def split: prod.splits sum.splits)

lemma switchAction_trace:
  assumes "switchAction env action p st = (r, st1)"
  shows "\<exists>evs. trace st1 = trace st @ evs \<and> modelCalls evs = 0 \<and> published evs = []
           \<and> length evs \<le> 1"
proof -
  consider (c) "switchAction env action p st = invokeTool (CallGetCoordinates (removeQuotes p))
          (getCoordinates env (removeQuotes p)) (JSON_stringify env) st"
    | (w) "switchAction env action p st = invokeTool
          (CallGetWeather (paramParts p ! 1) (paramParts p ! 0))
          (getWeather env (paramParts p ! 1) (paramParts p ! 0)) (JSON_stringify env) st"
    | (e) "st1 = st"
    using assms by (auto simp: switchAction_def Let_def split: if_splits)
  then show ?thesis
  proof cases
    case c
    with assms have "trace st1 = trace st @ [CallGetCoordinates (removeQuotes p)]"
      by (simp add: invokeTool_trace)
    then show ?thesis by simp
  next
    case w
    with assms have "trace st1 = trace st @ [CallGetWeather (paramParts p ! 1) (paramParts p ! 0)]"
      by (simp add: invokeTool_trace)
    then show ?thesis by simp
  next
    case e
    then show ?thesis by simp
  qed
qed

lemma executeAction_trace:
  assumes "executeAction env action parameter st = (r, st1)"
  shows "\<exists>evs. trace st1 = trace st @ evs \<and> modelCalls evs = 0 \<and> published evs = []
           \<and> length evs \<le> 1"
proof (cases "orNull parameter")
  case None
  with assms have "st1 = st" by (simp add: executeAction_def)
  then show ?thesis by simp
next
  case (Some p)
  with assms have "switchAction env action p st = (r, st1)" by (simp add: executeAction_def)
  then show ?thesis by (rule switchAction_trace)
qed

lemma loopBody_modelCalls:
  assumes "loopBody env messages st = (tc, ms, st')"
  shows "modelCalls (trace st') = modelCalls (trace st) + 1"
proof -
  obtain r st1 where c: "callOpenAI env messages st = (r, st1)" by (cases "callOpenAI env messages st")
  then have t1: "trace st1 = trace st @ [ModelCall messages]" by (rule callOpenAI_trace)
  show ?thesis
  proof (cases r)
    case (Inl e)
    with assms c t1 show ?thesis by (auto simp: loopBody_def)
  next
    case (Inr response)
    show ?thesis
    proof (cases "mapResponseToLinearActivityContent response")
      case (Inl e)
      with assms c t1 Inr show ?thesis by (auto simp: loopBody_def)
    next
      case content: (Inr content)
      show ?thesis
      proof (cases content)
        case (Action a p res)
        obtain r2 st2 where x: "executeAction env a p (createAgentActivity (Action a p res) st1) = (r2, st2)"
          by (cases "executeAction env a p (createAgentActivity (Action a p res) st1)")
        then obtain evs where "trace st2 = trace (createAgentActivity (Action a p res) st1) @ evs"
          "modelCalls evs = 0"
          using executeAction_trace by blast
        with assms c t1 Inr content Action x show ?thesis
          by (cases r2) (auto simp: loopBody_def)
      qed (use assms c t1 Inr content in \<open>auto simp: loopBody_def\<close>)
    qed
  qed
qed

lemma agentLoop_step:
  "\<not> tc \<Longrightarrow> i < n \<Longrightarrow>
     agentLoop env n tc i ms st =
       (case loopBody env ms st of (tc', ms', st') \<Rightarrow> agentLoop env n tc' (i + 1) ms' st')"
  by (subst agentLoop.simps) simp

lemma agentLoop_stop:
  "tc \<or> \<not> i < n \<Longrightarrow> agentLoop env n tc i ms st = (tc, i, ms, st)"
  by (subst agentLoop.simps) auto

lemma agentLoop_modelCalls:
  "agentLoop env n tc i ms st = (tc', i', ms', st') \<Longrightarrow>
     modelCalls (trace st') = modelCalls (trace st) + (i' - i) \<and> i \<le> i' \<and> (i \<le> n \<longrightarrow> i' \<le> n)"
proof (induction env n tc i ms st rule: agentLoop.induct)
  case (1 env n tc i ms st)
  show ?case
  proof (cases "\<not> tc \<and> i < n")
    case False
    with "1.prems" show ?thesis by (auto simp: agentLoop_stop)
  next
    case True
    obtain tc1 ms1 st1 where b: "loopBody env ms st = (tc1, ms1, st1)"
      by (cases "loopBody env ms st")
    with True "1.prems" have "agentLoop env n tc1 (i + 1) ms1 st1 = (tc', i', ms', st')"
      by (simp add: agentLoop_step)
    with "1.IH" [OF True b [symmetric] refl] True
    have "modelCalls (trace st') = modelCalls (trace st1) + (i' - (i + 1))"
      and "i + 1 \<le> i'" and "i' \<le> n"
      by auto
    moreover from b have "modelCalls (trace st1) = modelCalls (trace st) + 1"
      by (rule loopBody_modelCalls)
    ultimately show ?thesis by auto
  qed
qed

lemma turnFrom_modelCalls:
  "modelCalls (trace (turnFrom env n tc i ms st)) \<le> modelCalls (trace st) + (n - i)"
proof -
  obtain tc' i' ms' st' where a: "agentLoop env n tc i ms st = (tc', i', ms', st')"
    by (cases "agentLoop env n tc i ms st")
  then have m: "modelCalls (trace st') = modelCalls (trace st) + (i' - i)" "i \<le> i'" "i \<le> n \<longrightarrow> i' \<le> n"
    using agentLoop_modelCalls by blast+
  have "i' - i \<le> n - i"
  proof (cases "i \<le> n")
    case True with m show ?thesis by auto
  next
    case False
    with a have "i' = i" by (simp add: agentLoop_stop)
    then show ?thesis by simp
  qed
  with a m show ?thesis by (auto simp: turnFrom_def)
qed

lemma classify_Thought:
  "startsWith response (js ''THINKING:'') \<Longrightarrow>
     mapResponseToLinearActivityContent response
       = Inr (Thought (trim (drop (length (js ''THINKING:'')) response)))"
  using findType_keyword [of response Type_Thought]
  by (simp add: mapResponseToLinearActivityContent_def classifyWith_def replace_prefix
      startsWith_def)

lemma loopBody_thinking:
  assumes "alwaysThinking env"
  shows "\<exists>b r st'. loopBody env messages st = (False, messages @ [(Assistant, r)], st')
           \<and> trace st' = trace st @ [ModelCall messages, Publish (Thought b), Sleep 1000]"
proof -
  from assms obtain reply w' where
    m: "chatCompletionsCreate env messages (world st) = (Inr (Some (js ''THINKING:'' @ reply)), w')"
    unfolding alwaysThinking_def by blast
  have ne: "js ''THINKING:'' \<noteq> []" by (simp add: js_def)
  define st1 where "st1 = (emit (ModelCall messages) st)\<lparr>world := w'\<rparr>"
  from m ne have c: "callOpenAI env messages st = (Inr (js ''THINKING:'' @ reply), st1)"
    by (simp add: callOpenAI_def Let_def st1_def)
  have "startsWith (js ''THINKING:'' @ reply) (js ''THINKING:'')"
    by (simp add: startsWith_def)
  then have k: "mapResponseToLinearActivityContent (js ''THINKING:'' @ reply) = Inr (Thought (trim reply))"
    by (simp add: classify_Thought)
  have "loopBody env messages st
      = (False, messages @ [(Assistant, js ''THINKING:'' @ reply)],
         sleep 1000 (createAgentActivity (Thought (trim reply)) st1))"
    by (simp add: loopBody_def c k)
  moreover have "trace (sleep 1000 (createAgentActivity (Thought (trim reply)) st1))
      = trace st @ [ModelCall messages, Publish (Thought (trim reply)), Sleep 1000]"
    by (simp add: st1_def)
  ultimately show ?thesis by blast
qed

lemma agentLoop_thinking:
  assumes "alwaysThinking env"
  shows "n - i = k \<Longrightarrow> \<exists>ms' st' thoughts.
           agentLoop env n False i ms st = (False, max i n, ms', st')
           \<and> modelCalls (trace st') = modelCalls (trace st) + k
           \<and> published (trace st') = published (trace st) @ thoughts
           \<and> length thoughts = k \<and> list_all isThought thoughts
           \<and> (0 < k \<longrightarrow> last (trace st') = Sleep 1000)"
proof (induction k arbitrary: i ms st)
  case 0
  then have "agentLoop env n False i ms st = (False, max i n, ms, st)"
    by (simp add: agentLoop_stop max_def)
  then show ?case by simp
next
  case (Suc k)
  then have lt: "i < n" and k: "n - (i + 1) = k" by auto
  from assms obtain b r st1 where
    b: "loopBody env ms st = (False, ms @ [(Assistant, r)], st1)"
    and t: "trace st1 = trace st @ [ModelCall ms, Publish (Thought b), Sleep 1000]"
    using loopBody_thinking by blast
  from Suc.IH [OF k] obtain ms' st' thoughts where
    l: "agentLoop env n False (i + 1) (ms @ [(Assistant, r)]) st1 = (False, max (i + 1) n, ms', st')"
    and m: "modelCalls (trace st') = modelCalls (trace st1) + k"
    and p: "published (trace st') = published (trace st1) @ thoughts"
    and len: "length thoughts = k" "list_all isThought thoughts"
    and la: "0 < k \<longrightarrow> last (trace st') = Sleep 1000"
    by blast
  from lt b l have "agentLoop env n False i ms st = (False, max i n, ms', st')"
    by (simp add: agentLoop_step max_def)
  moreover from m t have "modelCalls (trace st') = modelCalls (trace st) + Suc k" by simp
  moreover from p t have "published (trace st') = published (trace st) @ (Thought b # thoughts)"
    by simp
  moreover from len have "length (Thought b # thoughts) = Suc k" "list_all isThought (Thought b # thoughts)"
    by simp_all
  moreover have "last (trace st') = Sleep 1000"
  proof (cases "0 < k")
    case True
    with la show ?thesis by simp
  next
    case False
    then have "n \<le> i + 1" using k by simp
    with l have "st' = st1" by (simp add: agentLoop_stop)
    with t show ?thesis by simp
  qed
  ultimately show ?case by blast
qed

lemma classify_Action_nonempty:
  assumes "mapResponseToLinearActivityContent response = Inr (Action a p r)"
  shows "\<exists>s. p = Some s \<and> s \<noteq> [] \<and> r = None \<and> isToolName a \<and> actionMatch response = Some (a, s)"
proof -
  from assms have f: "findType typeToKeyword response = Some Type_Action"
    by (auto simp: mapResponseToLinearActivityContent_def classifyWith_def
        split: option.splits AgentActivityType.splits)
  with assms obtain n s where m: "actionMatch response = Some (n, s)"
    by (auto simp: mapResponseToLinearActivityContent_def classifyWith_def split: option.splits)
  then have "s \<noteq> []" using actionMatch_params_nonempty by blast
  with assms f m show ?thesis
    by (auto simp: mapResponseToLinearActivityContent_def classifyWith_def split: if_splits)
qed

lemma classify_getWeather_example:
  "mapResponseToLinearActivityContent (js ''ACTION: getWeather(40.7128, -74.0060)'')
     = Inr (Action (js ''getWeather'') (Some (js ''40.7128, -74.0060'')) None)"
  by code_simp

lemma turnFrom_complete:
  assumes "i < n" and "loopBody env ms st = (True, ms', st')"
  shows "turnFrom env n False i ms st = st'"
proof -
  from assms have "agentLoop env n False i ms st = agentLoop env n True (i + 1) ms' st'"
    by (simp add: agentLoop_step)
  then have "agentLoop env n False i ms st = (True, i + 1, ms', st')"
    by (simp add: agentLoop_stop)
  then show ?thesis by (simp add: turnFrom_def)
qed

lemma turnFrom_continue:
  assumes "i < n" and "loopBody env ms st = (False, ms', st')"
  shows "turnFrom env n False i ms st = turnFrom env n False (i + 1) ms' st'"
  using assms by (simp add: turnFrom_def agentLoop_step)




lemma callOpenAI_scripted:
  "n < length replies \<Longrightarrow> replies ! n \<noteq> [] \<Longrightarrow>
     callOpenAI (scripted replies) messages \<lparr>trace = tr, world = n\<rparr>
       = (Inr (replies ! n), \<lparr>trace = tr @ [ModelCall messages], world = Suc n\<rparr>)"
  by (simp add: callOpenAI_def scripted_def emit_def)

lemma loopBody_action_throws:
  assumes "callOpenAI env messages st = (Inr response, st1)"
    and "mapResponseToLinearActivityContent response = Inr (Action a p r)"
    and "executeAction env a p (createAgentActivity (Action a p r) st1) = (Inl e, st2)"
  shows "loopBody env messages st = (True, messages, catchError e st2)"
  using assms by (simp add: loopBody_def)

lemma loopBody_action_returns:
  assumes "callOpenAI env messages st = (Inr response, st1)"
    and "mapResponseToLinearActivityContent response = Inr (Action a p r)"
    and "executeAction env a p (createAgentActivity (Action a p r) st1) = (Inr toolResult, st2)"
  shows "loopBody env messages st
           = (False,
              messages @ [(Assistant, response), (User, js ''Tool result: '' @ toolResult)],
              sleep 1000 (createAgentActivity (Action a (orNull p) (Some toolResult)) st2))"
  using assms by (simp add: loopBody_def)

lemma executeAction_missing_parameter:
  "orNull parameter = None \<Longrightarrow>
     executeAction env action parameter st
       = (Inl (JsError (js ''Parameter is required for action execution'')), st)"
  by (simp add: executeAction_def)

lemma executeAction_getWeather_invalid:
  assumes "parameter \<noteq> []"
    and "length (paramParts parameter) < 2 \<or> isNaN (paramParts parameter ! 0)
           \<or> isNaN (paramParts parameter ! 1)"
  shows "executeAction env (js ''getWeather'') (Some parameter) st
           = (Inl (JsError (js ''Invalid parameter for getWeather action'')), st)"
proof -
  have "js ''getWeather'' \<noteq> js ''getCoordinates''" by (simp add: js_def)
  with assms show ?thesis
    by (auto simp: executeAction_def orNull_def switchAction_def)
qed

lemma scripted_turn_starts:
  assumes "reply \<noteq> []"
  shows "callOpenAI (scripted (reply # replies)) messages \<lparr>trace = [], world = 0\<rparr>
           = (Inr reply, \<lparr>trace = [ModelCall messages], world = 1\<rparr>)"
  using assms callOpenAI_scripted [of 0 "reply # replies" messages "[]"] by simp

lemma scripted_turn_action_throws:
  assumes "reply \<noteq> []"
    and "mapResponseToLinearActivityContent reply = Inr (Action a p r)"
    and "executeAction (scripted (reply # replies)) a p
           \<lparr>trace = [ModelCall [(System, js ''instructions''), (User, userPrompt)],
                     Publish (Action a p r)], world = 1\<rparr> = (Inl e, st2)"
  shows "handleUserPrompt (scripted (reply # replies)) userPrompt 0 = catchError e st2"
proof -
  let ?ms = "[(System, js ''instructions''), (User, userPrompt)]"
  have c: "callOpenAI (scripted (reply # replies)) ?ms \<lparr>trace = [], world = 0\<rparr>
      = (Inr reply, \<lparr>trace = [ModelCall ?ms], world = 1\<rparr>)"
    using assms(1) by (rule scripted_turn_starts)
  have "createAgentActivity (Action a p r) \<lparr>trace = [ModelCall ?ms], world = 1::nat\<rparr>
      = \<lparr>trace = [ModelCall ?ms, Publish (Action a p r)], world = 1\<rparr>"
    by (simp add: createAgentActivity_def emit_def)
  then have "executeAction (scripted (reply # replies)) a p
      (createAgentActivity (Action a p r) \<lparr>trace = [ModelCall ?ms], world = 1\<rparr>) = (Inl e, st2)"
    using assms(3) by (simp only:)
  with c assms(2) have "loopBody (scripted (reply # replies)) ?ms \<lparr>trace = [], world = 0\<rparr>
      = (True, ?ms, catchError e st2)"
    by (rule loopBody_action_throws)
  then have "turnFrom (scripted (reply # replies)) 10 False 0 ?ms \<lparr>trace = [], world = 0\<rparr>
      = catchError e st2"
    using turnFrom_complete [of 0 10] by simp
  then show ?thesis
    by (simp add: handleUserPrompt_def handleUserPromptWith_def MAX_ITERATIONS_def scripted_def)
qed

lemma paramParts_abc: "paramParts (js ''abc, -74.0'') = [NaN, NumLit (js ''-74.0'')]"
  by code_simp

lemma paramParts_one: "paramParts (js ''1'') = [NumLit (js ''1'')]"
  by code_simp

lemma classify_getWeather_abc:
  "mapResponseToLinearActivityContent (js ''ACTION: getWeather(abc, -74.0)'')
     = Inr (Action (js ''getWeather'') (Some (js ''abc, -74.0'')) None)"
  by code_simp

lemma classify_getWeather_one:
  "mapResponseToLinearActivityContent (js ''ACTION: getWeather(1)'')
     = Inr (Action (js ''getWeather'') (Some (js ''1'')) None)"
  by code_simp

lemma agent_error_invalid_parameter:
  "catchError (JsError (js ''Invalid parameter for getWeather action'')) st
     = createAgentActivity (Error (js ''Agent error: Invalid parameter for getWeather action'')) st"
  by (simp add: catchError_def errorMessage_def js_def)

lemma run_getWeather_abc:
  "handleUserPrompt (scripted (js ''ACTION: getWeather(abc, -74.0)'' # replies)) userPrompt 0
     = \<lparr>trace = [ModelCall [(System, js ''instructions''), (User, userPrompt)],
                 Publish (Action (js ''getWeather'') (Some (js ''abc, -74.0'')) None),
                 Publish (Error (js ''Agent error: Invalid parameter for getWeather action''))],
        world = 1\<rparr>"
proof -
  have ne: "js ''ACTION: getWeather(abc, -74.0)'' \<noteq> []" "js ''abc, -74.0'' \<noteq> []"
    by (simp_all add: js_def)
  have "handleUserPrompt (scripted (js ''ACTION: getWeather(abc, -74.0)'' # replies)) userPrompt 0
      = catchError (JsError (js ''Invalid parameter for getWeather action''))
          \<lparr>trace = [ModelCall [(System, js ''instructions''), (User, userPrompt)],
                 Publish (Action (js ''getWeather'') (Some (js ''abc, -74.0'')) None)],
            world = 1\<rparr>"
    using ne(1) classify_getWeather_abc
  proof (rule scripted_turn_action_throws)
    show "executeAction (scripted (js ''ACTION: getWeather(abc, -74.0)'' # replies))
        (js ''getWeather'') (Some (js ''abc, -74.0''))
        \<lparr>trace = [ModelCall [(System, js ''instructions''), (User, userPrompt)],
                 Publish (Action (js ''getWeather'') (Some (js ''abc, -74.0'')) None)],
          world = 1\<rparr>
      = (Inl (JsError (js ''Invalid parameter for getWeather action'')),
         \<lparr>trace = [ModelCall [(System, js ''instructions''), (User, userPrompt)],
                 Publish (Action (js ''getWeather'') (Some (js ''abc, -74.0'')) None)],
          world = 1\<rparr>)"
      using ne(2) by (rule executeAction_getWeather_invalid) (simp add: paramParts_abc isNaN_def)
  qed
  then show ?thesis
    by (simp add: agent_error_invalid_parameter createAgentActivity_def emit_def)
qed

lemma run_getWeather_one:
  "handleUserPrompt (scripted (js ''ACTION: getWeather(1)'' # replies)) userPrompt 0
     = \<lparr>trace = [ModelCall [(System, js ''instructions''), (User, userPrompt)],
                 Publish (Action (js ''getWeather'') (Some (js ''1'')) None),
                 Publish (Error (js ''Agent error: Invalid parameter for getWeather action''))],
        world = 1\<rparr>"
proof -
  have ne: "js ''ACTION: getWeather(1)'' \<noteq> []" "js ''1'' \<noteq> []"
    by (simp_all add: js_def)
  have "handleUserPrompt (scripted (js ''ACTION: getWeather(1)'' # replies)) userPrompt 0
      = catchError (JsError (js ''Invalid parameter for getWeather action''))
          \<lparr>trace = [ModelCall [(System, js ''instructions''), (User, userPrompt)],
                 Publish (Action (js ''getWeather'') (Some (js ''1'')) None)],
            world = 1\<rparr>"
    using ne(1) classify_getWeather_one
  proof (rule scripted_turn_action_throws)
    show "executeAction (scripted (js ''ACTION: getWeather(1)'' # replies))
        (js ''getWeather'') (Some (js ''1''))
        \<lparr>trace = [ModelCall [(System, js ''instructions''), (User, userPrompt)],
                 Publish (Action (js ''getWeather'') (Some (js ''1'')) None)],
          world = 1\<rparr>
      = (Inl (JsError (js ''Invalid parameter for getWeather action'')),
         \<lparr>trace = [ModelCall [(System, js ''instructions''), (User, userPrompt)],
                 Publish (Action (js ''getWeather'') (Some (js ''1'')) None)],
          world = 1\<rparr>)"
      using ne(2) by (rule executeAction_getWeather_invalid) (simp add: paramParts_one)
  qed
  then show ?thesis
    by (simp add: agent_error_invalid_parameter createAgentActivity_def emit_def)
qed

lemma split_no_separator: "sep \<notin> set s \<Longrightarrow> split sep s = [s]"
  by (induction s) auto

lemma split_at_first_separator:
  "sep \<notin> set a \<Longrightarrow> split sep (a @ sep # b) = a # split sep b"
  by (induction a) auto

lemma paramParts_two_fields:
  assumes "0x2C \<notin> set a" and "0x2C \<notin> set b"
  shows "paramParts (a @ [0x2C] @ b) = [parseFloat (trim a), parseFloat (trim b)]"
  using assms by (simp add: paramParts_def split_at_first_separator split_no_separator)

lemma executeAction_getWeather_valid:
  assumes "parameter \<noteq> []"
    and "paramParts parameter = lat # lng # others"
    and "\<not> isNaN lat" and "\<not> isNaN lng"
  shows "executeAction env (js ''getWeather'') (Some parameter) st
           = invokeTool (CallGetWeather lng lat) (getWeather env lng lat) (JSON_stringify env) st"
proof -
  have "js ''getWeather'' \<noteq> js ''getCoordinates''" by (simp add: js_def)
  with assms show ?thesis
    by (simp add: executeAction_def orNull_def switchAction_def Let_def)
qed

lemma invokeTool_scripted_getWeather:
  "invokeTool ev (getWeather (scripted replies) a b) (JSON_stringify (scripted replies))
       \<lparr>trace = tr, world = n\<rparr>
     = (Inr (js ''weather''), \<lparr>trace = tr @ [ev], world = n\<rparr>)"
  by (simp add: invokeTool_def scripted_def emit_def)

lemma parseFloat_lat: "parseFloat (trim (js ''40.7128'')) = NumLit (js ''40.7128'')"
  by code_simp

lemma parseFloat_lng: "parseFloat (trim (js '' -74.0060'')) = NumLit (js ''-74.0060'')"
  by code_simp

lemma paramParts_example:
  "paramParts (js ''40.7128, -74.0060'') = [NumLit (js ''40.7128''), NumLit (js ''-74.0060'')]"
  by code_simp

lemma executeAction_scripted_getWeather_example:
  "executeAction (scripted replies) (js ''getWeather'') (Some (js ''40.7128, -74.0060''))
       \<lparr>trace = tr, world = n\<rparr>
     = (Inr (js ''weather''),
        \<lparr>trace = tr @ [CallGetWeather (NumLit (js ''-74.0060'')) (NumLit (js ''40.7128''))],
          world = n\<rparr>)"
proof -
  have ne: "js ''40.7128, -74.0060'' \<noteq> []" by (simp add: js_def)
  have "executeAction (scripted replies) (js ''getWeather'') (Some (js ''40.7128, -74.0060''))
       \<lparr>trace = tr, world = n\<rparr>
     = invokeTool (CallGetWeather (NumLit (js ''-74.0060'')) (NumLit (js ''40.7128'')))
         (getWeather (scripted replies) (NumLit (js ''-74.0060'')) (NumLit (js ''40.7128'')))
         (JSON_stringify (scripted replies)) \<lparr>trace = tr, world = n\<rparr>"
    using ne paramParts_example
    by (rule executeAction_getWeather_valid) (simp_all add: isNaN_def)
  then show ?thesis by (simp only: invokeTool_scripted_getWeather)
qed

declare showNat.simps [simp del]

lemma showNat_500: "showNat 500 = js ''500''"
  by code_simp

lemma tryCatch_never_throws: "tryCatch body handler \<noteq> Inl e"
  by (cases body) (simp_all add: tryCatch_def)

lemma getCoordinatesTool_never_throws: "getCoordinatesTool city_name up \<noteq> Some (Inl e)"
  by (cases "fetch up") (simp_all add: getCoordinatesTool_def tryCatch_never_throws)

lemma getWeatherTool_never_throws: "getWeatherTool numberToString params up \<noteq> Some (Inl e)"
  by (cases "fetch up") (simp_all add: getWeatherTool_def tryCatch_never_throws)

lemma getTimeTool_never_throws: "getTimeTool abortError params up \<noteq> Some (Inl e)"
  by (cases "fetchWithAbort abortError 60000 up")
    (simp_all add: getTimeTool_def tryCatch_never_throws)

lemma fetchWithAbort_settles: "fetchWithAbort abortError timeoutMs up \<noteq> None"
  by (cases up) (simp_all add: fetchWithAbort_def)

lemma getTimeTool_returns: "\<exists>s. getTimeTool abortError params up = Some (Inr s)"
proof (cases "getTimeTool abortError params up")
  case None
  then show ?thesis by (simp add: getTimeTool_def fetchWithAbort_settles)
next
  case (Some r)
  then show ?thesis using getTimeTool_never_throws [of abortError params up] by (cases r) auto
qed

lemma getTimeTool_aborts:
  "60000 \<le> ms \<Longrightarrow>
     getTimeTool abortError params (Answers ms response)
       = Some (Inr (js ''Failed to get time: '' @ errorMessage abortError))"
  and "getTimeTool abortError params Silent
       = Some (Inr (js ''Failed to get time: '' @ errorMessage abortError))"
  by (simp_all add: getTimeTool_def fetchWithAbort_def getTimeTry_def tryCatch_def)

lemma tools_network_error:
  "getCoordinatesTool city_name (NetworkError e)
     = Some (Inr (CoordinatesError (js ''Failed to get coordinates: '' @ errorMessage e)))"
  "getWeatherTool numberToString params (NetworkError e)
     = Some (Inr (js ''Failed to get weather: '' @ errorMessage e))"
  "getTimeTool abortError params (NetworkError e)
     = Some (Inr (js ''Failed to get time: '' @ errorMessage e))"
  by (simp_all add: getCoordinatesTool_def getWeatherTool_def getTimeTool_def fetch_def
      fetchWithAbort_def getCoordinatesTry_def getWeatherTry_def getTimeTry_def tryCatch_def)

lemma tools_malformed_json:
  "getCoordinatesTool city_name (Answers ms (HttpResponse True st txt (Inl e)))
     = Some (Inr (CoordinatesError (js ''Failed to get coordinates: '' @ errorMessage e)))"
  "getWeatherTool numberToString params (Answers ms (HttpResponse okay st txt (Inl e)))
     = Some (Inr (js ''Failed to get weather: '' @ errorMessage e))"
  "ms < 60000 \<Longrightarrow>
   getTimeTool abortError params (Answers ms (HttpResponse True st txt (Inl e)))
     = Some (Inr (js ''Failed to get time: '' @ errorMessage e))"
  by (simp_all add: getCoordinatesTool_def getWeatherTool_def getTimeTool_def fetch_def
      fetchWithAbort_def getCoordinatesTry_def getWeatherTry_def getTimeTry_def tryCatch_def)

lemma tools_http_status:
  "getCoordinatesTool city_name (Answers ms (HttpResponse False st txt body))
     = Some (Inr (CoordinatesError (js ''OpenStreetMap API error: '' @ showNat st @ js '' '' @ txt)))"
  "ms < 60000 \<Longrightarrow>
   getTimeTool abortError params (Answers ms (HttpResponse False st txt body'))
     = Some (Inr (js ''Time API error: '' @ showNat st @ js '' '' @ txt))"
  by (simp_all add: getCoordinatesTool_def getTimeTool_def fetch_def
      fetchWithAbort_def getCoordinatesTry_def getTimeTry_def tryCatch_def)

lemma getWeatherDescription_0: "getWeatherDescription 0 = js ''clear sky''"
  by (simp add: getWeatherDescription_def weatherCodes_def)






lemma classify_second_call:
  "mapResponseToLinearActivityContent (js ''ACTION: getWeather() ACTION: getWeather(1, 2)'')
     = Inr (Action (js ''getWeather'') (Some (js ''1, 2'')) None)"
  by code_simp

lemma paramParts_one_two: "paramParts (js ''1, 2'') = [NumLit (js ''1''), NumLit (js ''2'')]"
  by code_simp


section \<open>The claims\<close>

subsection \<open>C1\<close>

text \<open>
  Claim C1. A turn calls the model at most \<open>maxIterations\<close> times (10 in
  \<^verbatim>\<open>handleUserPrompt\<close>). When the model always answers with a \<^verbatim>\<open>THINKING:\<close> text,
  the turn makes exactly \<open>maxIterations\<close> model calls, publishes that many
  thoughts and then the maximum-iterations error activity, which is the last
  event of the turn: no model call follows the last cycle.
\<close>

theorem loop_bounded_by_max_iterations:
  "modelCalls (trace (handleUserPromptWith maxIterations env userPrompt w)) \<le> maxIterations
   \<and> (alwaysThinking env \<longrightarrow>
        modelCalls (trace (handleUserPromptWith maxIterations env userPrompt w)) = maxIterations
        \<and> (\<exists>thoughts.
              published (trace (handleUserPromptWith maxIterations env userPrompt w))
                = thoughts @ [Error maxIterationsMessage]
              \<and> length thoughts = maxIterations \<and> list_all isThought thoughts)
        \<and> last (trace (handleUserPromptWith maxIterations env userPrompt w))
             = Publish (Error maxIterationsMessage))"
proof (intro conjI impI)
  show "modelCalls (trace (handleUserPromptWith maxIterations env userPrompt w)) \<le> maxIterations"
    using turnFrom_modelCalls [of env maxIterations False 0
        "[(System, prompt env), (User, userPrompt)]" "\<lparr>trace = [], world = w\<rparr>"]
    by (simp add: handleUserPromptWith_def)
next
  assume a: "alwaysThinking env"
  define st0 :: "'a state" where "st0 = \<lparr>trace = [], world = w\<rparr>"
  from agentLoop_thinking [OF a, of maxIterations 0 maxIterations
      "[(System, prompt env), (User, userPrompt)]" st0]
  obtain ms' st' thoughts where
    l: "agentLoop env maxIterations False 0 [(System, prompt env), (User, userPrompt)] st0
          = (False, maxIterations, ms', st')"
    and m: "modelCalls (trace st') = maxIterations"
    and p: "published (trace st') = thoughts"
    and len: "length thoughts = maxIterations" "list_all isThought thoughts"
    by (auto simp: st0_def)
  from l have h: "handleUserPromptWith maxIterations env userPrompt w
      = createAgentActivity (Error maxIterationsMessage) st'"
    by (simp add: handleUserPromptWith_def turnFrom_def st0_def)
  from h m show "modelCalls (trace (handleUserPromptWith maxIterations env userPrompt w)) = maxIterations"
    by simp
  from h p len show "\<exists>thoughts.
      published (trace (handleUserPromptWith maxIterations env userPrompt w))
        = thoughts @ [Error maxIterationsMessage]
      \<and> length thoughts = maxIterations \<and> list_all isThought thoughts"
    by simp
  from h show "last (trace (handleUserPromptWith maxIterations env userPrompt w))
      = Publish (Error maxIterationsMessage)"
    by simp
qed

text \<open>The theorem at a model that answers every request with the same thought.\<close>

theorem loop_bounded_by_max_iterations_witness:
  "alwaysThinking ponderer
   \<and> modelCalls (trace (handleUserPrompt ponderer (js ''Weather in Paris?'') ())) = 10
   \<and> last (trace (handleUserPrompt ponderer (js ''Weather in Paris?'') ()))
        = Publish (Error maxIterationsMessage)"
proof -
  have "js ''THINKING: let me think'' = js ''THINKING:'' @ js '' let me think''"
    by (simp add: js_def)
  then have a: "alwaysThinking ponderer"
    unfolding alwaysThinking_def ponderer_def by simp
  with loop_bounded_by_max_iterations [of MAX_ITERATIONS ponderer "js ''Weather in Paris?''" "()"]
  show ?thesis by (simp add: handleUserPrompt_def MAX_ITERATIONS_def)
qed

subsection \<open>C2\<close>

text \<open>
  Claim C2, as the code has it. A response that starts with \<^verbatim>\<open>THINKING:\<close>,
  \<^verbatim>\<open>RESPONSE:\<close>, \<^verbatim>\<open>ELICITATION:\<close> or \<^verbatim>\<open>ERROR:\<close> is classified as the activity of
  that kind, whose body is the response without the leading keyword, trimmed. A
  response that starts with \<^verbatim>\<open>ACTION:\<close> is classified as an action exactly when
  the action pattern matches somewhere in it and the tool name it captures passes
  \<^verbatim>\<open>isToolName\<close>; otherwise the classifier throws.
\<close>

theorem classification_of_keyword_prefixed_output:
  "(startsWith response (js ''THINKING:'') \<longrightarrow>
      mapResponseToLinearActivityContent response
        = Inr (Thought (trim (drop (length (js ''THINKING:'')) response))))
   \<and> (startsWith response (js ''RESPONSE:'') \<longrightarrow>
      mapResponseToLinearActivityContent response
        = Inr (Response (trim (drop (length (js ''RESPONSE:'')) response))))
   \<and> (startsWith response (js ''ELICITATION:'') \<longrightarrow>
      mapResponseToLinearActivityContent response
        = Inr (Elicitation (trim (drop (length (js ''ELICITATION:'')) response))))
   \<and> (startsWith response (js ''ERROR:'') \<longrightarrow>
      mapResponseToLinearActivityContent response
        = Inr (Error (trim (drop (length (js ''ERROR:'')) response))))
   \<and> (startsWith response (js ''ACTION:'') \<longrightarrow>
      mapResponseToLinearActivityContent response
        = (case actionMatch response of
             None \<Rightarrow> Inl (UnreachableCaseError (js ''action''))
           | Some (toolNameRaw, params) \<Rightarrow>
               if isToolName toolNameRaw then Inr (Action toolNameRaw (Some params) None)
               else Inl (JsError (js ''Invalid tool name: '' @ toolNameRaw))))"
proof (intro conjI impI)
  assume a: "startsWith response (js ''THINKING:'')"
  then have "findType typeToKeyword response = Some Type_Thought"
    using findType_keyword [of response Type_Thought] by simp
  with a show "mapResponseToLinearActivityContent response
        = Inr (Thought (trim (drop (length (js ''THINKING:'')) response)))"
    by (simp add: mapResponseToLinearActivityContent_def classifyWith_def replace_prefix
        startsWith_def)
next
  assume a: "startsWith response (js ''RESPONSE:'')"
  then have "findType typeToKeyword response = Some Type_Response"
    using findType_keyword [of response Type_Response] by simp
  with a show "mapResponseToLinearActivityContent response
        = Inr (Response (trim (drop (length (js ''RESPONSE:'')) response)))"
    by (simp add: mapResponseToLinearActivityContent_def classifyWith_def replace_prefix
        startsWith_def)
next
  assume a: "startsWith response (js ''ELICITATION:'')"
  then have "findType typeToKeyword response = Some Type_Elicitation"
    using findType_keyword [of response Type_Elicitation] by simp
  with a show "mapResponseToLinearActivityContent response
        = Inr (Elicitation (trim (drop (length (js ''ELICITATION:'')) response)))"
    by (simp add: mapResponseToLinearActivityContent_def classifyWith_def replace_prefix
        startsWith_def)
next
  assume a: "startsWith response (js ''ERROR:'')"
  then have "findType typeToKeyword response = Some Type_Error"
    using findType_keyword [of response Type_Error] by simp
  with a show "mapResponseToLinearActivityContent response
        = Inr (Error (trim (drop (length (js ''ERROR:'')) response)))"
    by (simp add: mapResponseToLinearActivityContent_def classifyWith_def replace_prefix
        startsWith_def)
next
  assume a: "startsWith response (js ''ACTION:'')"
  then have f: "findType typeToKeyword response = Some Type_Action"
    using findType_keyword [of response Type_Action] by simp
  show "mapResponseToLinearActivityContent response
        = (case actionMatch response of
             None \<Rightarrow> Inl (UnreachableCaseError (js ''action''))
           | Some (toolNameRaw, params) \<Rightarrow>
               if isToolName toolNameRaw then Inr (Action toolNameRaw (Some params) None)
               else Inl (JsError (js ''Invalid tool name: '' @ toolNameRaw)))"
  proof (cases "actionMatch response")
    case None
    with f show ?thesis
      by (simp add: mapResponseToLinearActivityContent_def classifyWith_def)
  next
    case (Some m)
    obtain n p where m: "m = (n, p)" by (cases m)
    with Some have "p \<noteq> []" using actionMatch_params_nonempty by blast
    with f Some m show ?thesis
      by (simp add: mapResponseToLinearActivityContent_def classifyWith_def)
  qed
qed

text \<open>The theorem at one response for each keyword.\<close>

theorem classification_of_keyword_prefixed_output_witness:
  "mapResponseToLinearActivityContent (js ''RESPONSE:  Sunny, 22'' @ [0xB0] @ js ''C '')
     = Inr (Response (js ''Sunny, 22'' @ [0xB0] @ js ''C''))
   \<and> mapResponseToLinearActivityContent (js ''THINKING: I need coordinates first'')
     = Inr (Thought (js ''I need coordinates first''))
   \<and> mapResponseToLinearActivityContent (js ''ELICITATION: Which city?'')
     = Inr (Elicitation (js ''Which city?''))
   \<and> mapResponseToLinearActivityContent (js ''ERROR: The tool failed to execute'')
     = Inr (Error (js ''The tool failed to execute''))
   \<and> mapResponseToLinearActivityContent (js ''ACTION: getWeather(40.7128, -74.0060)'')
     = Inr (Action (js ''getWeather'') (Some (js ''40.7128, -74.0060'')) None)"
proof -
  have m: "actionMatch (js ''ACTION: getWeather(40.7128, -74.0060)'')
      = Some (js ''getWeather'', js ''40.7128, -74.0060'')"
    by code_simp
  have t: "isToolName (js ''getWeather'')"
    by (simp add: isToolName_def)
  have "mapResponseToLinearActivityContent (js ''RESPONSE:  Sunny, 22'' @ [0xB0] @ js ''C '')
     = Inr (Response (js ''Sunny, 22'' @ [0xB0] @ js ''C''))"
    using classification_of_keyword_prefixed_output
      [of "js ''RESPONSE:  Sunny, 22'' @ [0xB0] @ js ''C ''"]
    by (simp add: startsWith_def js_def trim_def isWhiteSpace_def)
  moreover have "mapResponseToLinearActivityContent (js ''THINKING: I need coordinates first'')
     = Inr (Thought (js ''I need coordinates first''))"
    using classification_of_keyword_prefixed_output [of "js ''THINKING: I need coordinates first''"]
    by (simp add: startsWith_def js_def trim_def isWhiteSpace_def)
  moreover have "mapResponseToLinearActivityContent (js ''ELICITATION: Which city?'')
     = Inr (Elicitation (js ''Which city?''))"
    using classification_of_keyword_prefixed_output [of "js ''ELICITATION: Which city?''"]
    by (simp add: startsWith_def js_def trim_def isWhiteSpace_def)
  moreover have "mapResponseToLinearActivityContent (js ''ERROR: The tool failed to execute'')
     = Inr (Error (js ''The tool failed to execute''))"
    using classification_of_keyword_prefixed_output [of "js ''ERROR: The tool failed to execute''"]
    by (simp add: startsWith_def js_def trim_def isWhiteSpace_def)
  moreover have "mapResponseToLinearActivityContent (js ''ACTION: getWeather(40.7128, -74.0060)'')
     = Inr (Action (js ''getWeather'') (Some (js ''40.7128, -74.0060'')) None)"
    using classification_of_keyword_prefixed_output
      [of "js ''ACTION: getWeather(40.7128, -74.0060)''"] m t
    by (simp add: startsWith_def js_def)
  ultimately show ?thesis by blast
qed

text \<open>
  Claim C2 as stated fails for the \<^verbatim>\<open>ACTION:\<close> keyword: a response that starts with
  it and names an unknown tool is not classified as an activity at all.
\<close>

theorem action_prefix_unknown_tool_counterexample:
  "startsWith (js ''ACTION: getForecast(Paris)'') (js ''ACTION:'')
   \<and> \<not> startsWith (js ''ACTION: getForecast(Paris)'') (js ''THINKING:'')
   \<and> \<not> startsWith (js ''ACTION: getForecast(Paris)'') (js ''RESPONSE:'')
   \<and> \<not> startsWith (js ''ACTION: getForecast(Paris)'') (js ''ELICITATION:'')
   \<and> \<not> startsWith (js ''ACTION: getForecast(Paris)'') (js ''ERROR:'')
   \<and> mapResponseToLinearActivityContent (js ''ACTION: getForecast(Paris)'')
       = Inl (JsError (js ''Invalid tool name: getForecast''))"
  by code_simp

subsection \<open>C3\<close>



subsection \<open>C4\<close>

text \<open>
  Claim C4, as the code has it. With a missing parameter, or a \<^verbatim>\<open>getWeather\<close>
  parameter that has fewer than two comma-separated fields or a field among the
  first two that \<^verbatim>\<open>parseFloat\<close> reads as \<^verbatim>\<open>NaN\<close>, \<^verbatim>\<open>executeAction\<close> throws and leaves
  the state as it found it: no tool is invoked. When \<^verbatim>\<open>executeAction\<close> throws in an
  action cycle, the turn ends with an error activity that carries the message;
  the conversation is not extended and the model is not called again.
\<close>

theorem invalid_parameter_ends_turn:
  "executeAction env action None st
     = (Inl (JsError (js ''Parameter is required for action execution'')), st)
   \<and> executeAction env action (Some []) st
     = (Inl (JsError (js ''Parameter is required for action execution'')), st)
   \<and> (parameter \<noteq> []
        \<and> (length (paramParts parameter) < 2 \<or> isNaN (paramParts parameter ! 0)
             \<or> isNaN (paramParts parameter ! 1)) \<longrightarrow>
        executeAction env (js ''getWeather'') (Some parameter) st
          = (Inl (JsError (js ''Invalid parameter for getWeather action'')), st))
   \<and> (iterations < maxIterations
        \<and> callOpenAI env messages st = (Inr response, st1)
        \<and> mapResponseToLinearActivityContent response = Inr (Action toolName p r)
        \<and> executeAction env toolName p (createAgentActivity (Action toolName p r) st1)
            = (Inl e, st2) \<longrightarrow>
        turnFrom env maxIterations False iterations messages st
          = createAgentActivity (Error (js ''Agent error: '' @ errorMessage e)) st2)"
proof (intro conjI impI)
  show "executeAction env action None st
     = (Inl (JsError (js ''Parameter is required for action execution'')), st)"
    by (simp add: executeAction_def orNull_def)
  show "executeAction env action (Some []) st
     = (Inl (JsError (js ''Parameter is required for action execution'')), st)"
    by (simp add: executeAction_def orNull_def)
next
  assume "parameter \<noteq> []
      \<and> (length (paramParts parameter) < 2 \<or> isNaN (paramParts parameter ! 0)
           \<or> isNaN (paramParts parameter ! 1))"
  moreover have "js ''getWeather'' \<noteq> js ''getCoordinates''" by (simp add: js_def)
  ultimately show "executeAction env (js ''getWeather'') (Some parameter) st
      = (Inl (JsError (js ''Invalid parameter for getWeather action'')), st)"
    by (auto simp: executeAction_def orNull_def switchAction_def)
next
  assume a: "iterations < maxIterations
      \<and> callOpenAI env messages st = (Inr response, st1)
      \<and> mapResponseToLinearActivityContent response = Inr (Action toolName p r)
      \<and> executeAction env toolName p (createAgentActivity (Action toolName p r) st1)
          = (Inl e, st2)"
  then have "loopBody env messages st = (True, messages, catchError e st2)"
    by (simp add: loopBody_action_throws)
  with a have "turnFrom env maxIterations False iterations messages st = catchError e st2"
    by (simp add: turnFrom_complete)
  then show "turnFrom env maxIterations False iterations messages st
      = createAgentActivity (Error (js ''Agent error: '' @ errorMessage e)) st2"
    by (simp add: catchError_def)
qed

text \<open>The theorem at a turn whose first answer is \<^verbatim>\<open>ACTION: getWeather(abc, -74.0)\<close>.\<close>

theorem invalid_parameter_ends_turn_witness:
  "handleUserPrompt (scripted [js ''ACTION: getWeather(abc, -74.0)'', js ''RESPONSE: done''])
       (js ''Weather?'') 0
     = \<lparr>trace = [ModelCall [(System, js ''instructions''), (User, js ''Weather?'')],
                 Publish (Action (js ''getWeather'') (Some (js ''abc, -74.0'')) None),
                 Publish (Error (js ''Agent error: Invalid parameter for getWeather action''))],
        world = 1\<rparr>"
proof -
  let ?env = "scripted [js ''ACTION: getWeather(abc, -74.0)'', js ''RESPONSE: done'']"
  let ?ms = "[(System, js ''instructions''), (User, js ''Weather?'')]"
  let ?st = "\<lparr>trace = [], world = 0::nat\<rparr>"
  let ?st1 = "\<lparr>trace = [ModelCall ?ms], world = 1::nat\<rparr>"
  let ?act = "Action (js ''getWeather'') (Some (js ''abc, -74.0'')) None"
  let ?e = "JsError (js ''Invalid parameter for getWeather action'')"
  have lt: "(0::nat) < 10" by simp
  have c: "callOpenAI ?env ?ms ?st = (Inr (js ''ACTION: getWeather(abc, -74.0)''), ?st1)"
    using callOpenAI_scripted
      [of 0 "[js ''ACTION: getWeather(abc, -74.0)'', js ''RESPONSE: done'']" ?ms "[]"]
    by (simp add: js_def)
  have m: "mapResponseToLinearActivityContent (js ''ACTION: getWeather(abc, -74.0)'') = Inr ?act"
    by (rule classify_getWeather_abc)
  have inv: "js ''abc, -74.0'' \<noteq> []
      \<and> (length (paramParts (js ''abc, -74.0'')) < 2 \<or> isNaN (paramParts (js ''abc, -74.0'') ! 0)
           \<or> isNaN (paramParts (js ''abc, -74.0'') ! 1))"
    by (simp add: paramParts_abc isNaN_def) (simp add: js_def)
  have x: "executeAction ?env (js ''getWeather'') (Some (js ''abc, -74.0''))
        (createAgentActivity ?act ?st1) = (Inl ?e, createAgentActivity ?act ?st1)"
    using invalid_parameter_ends_turn
      [where env = ?env and st = "createAgentActivity ?act ?st1"
         and parameter = "js ''abc, -74.0''"]
      inv by blast
  have "turnFrom ?env 10 False 0 ?ms ?st
      = createAgentActivity (Error (js ''Agent error: '' @ errorMessage ?e))
          (createAgentActivity ?act ?st1)"
    using invalid_parameter_ends_turn
      [where env = ?env and iterations = 0 and maxIterations = 10 and messages = ?ms
         and st = ?st and response = "js ''ACTION: getWeather(abc, -74.0)''" and ?st1.0 = ?st1
         and toolName = "js ''getWeather''" and p = "Some (js ''abc, -74.0'')" and r = None
         and e = ?e and ?st2.0 = "createAgentActivity ?act ?st1"]
      lt c m x by blast
  moreover have "js ''Agent error: '' @ errorMessage ?e
      = js ''Agent error: Invalid parameter for getWeather action''"
    by (simp add: errorMessage_def js_def)
  ultimately show ?thesis
    by (simp add: handleUserPrompt_def handleUserPromptWith_def MAX_ITERATIONS_def
        scripted_def createAgentActivity_def emit_def)
qed

text \<open>
  Claim C4 as stated fails: after \<^verbatim>\<open>getWeather(abc, -74.0)\<close> the loop does not go on
  to the model's next answer; the turn has made one model call and ends with an
  error activity.
\<close>

theorem invalid_parameter_loop_stops_counterexample:
  "modelCalls (trace (handleUserPrompt
       (scripted [js ''ACTION: getWeather(abc, -74.0)'', js ''RESPONSE: It is sunny''])
       (js ''Weather in New York?'') 0)) = 1
   \<and> published (trace (handleUserPrompt
       (scripted [js ''ACTION: getWeather(abc, -74.0)'', js ''RESPONSE: It is sunny''])
       (js ''Weather in New York?'') 0))
     = [Action (js ''getWeather'') (Some (js ''abc, -74.0'')) None,
        Error (js ''Agent error: Invalid parameter for getWeather action'')]"
  by (simp add: run_getWeather_abc)

subsection \<open>C5\<close>

text \<open>
  Claim C5, as the code has it. An action cycle in which \<^verbatim>\<open>executeAction\<close> returns
  publishes exactly two activities: the action without a result, then the action
  with the result, both with the same tool name and parameter.
\<close>

theorem action_cycle_publishes_intent_then_result:
  assumes "callOpenAI env messages st = (Inr response, st1)"
    and "mapResponseToLinearActivityContent response = Inr (Action toolName parameter r)"
    and "executeAction env toolName parameter
           (createAgentActivity (Action toolName parameter r) st1) = (Inr toolResult, st2)"
  shows "\<exists>evs st3.
           loopBody env messages st
             = (False,
                messages @ [(Assistant, response), (User, js ''Tool result: '' @ toolResult)],
                st3)
           \<and> trace st3 = trace st @ evs
           \<and> published evs
               = [Action toolName parameter None, Action toolName parameter (Some toolResult)]"
proof -
  from classify_Action_nonempty [OF assms(2)]
  obtain p where p: "parameter = Some p" "p \<noteq> []" "r = None"
    by auto
  then have o: "orNull parameter = parameter" by (simp add: orNull_def)
  from assms(1) have t1: "trace st1 = trace st @ [ModelCall messages]"
    by (rule callOpenAI_trace)
  from assms(3) obtain evs where
    t2: "trace st2 = trace (createAgentActivity (Action toolName parameter r) st1) @ evs"
    and e: "published evs = []"
    using executeAction_trace by blast
  let ?st3 = "sleep 1000 (createAgentActivity (Action toolName parameter (Some toolResult)) st2)"
  have "loopBody env messages st
      = (False, messages @ [(Assistant, response), (User, js ''Tool result: '' @ toolResult)], ?st3)"
    using loopBody_action_returns [OF assms] o by (simp only:)
  moreover have "trace ?st3 = trace st @ ([ModelCall messages, Publish (Action toolName parameter r)]
      @ evs @ [Publish (Action toolName parameter (Some toolResult)), Sleep 1000])"
    using t1 t2 by simp
  moreover have "published ([ModelCall messages, Publish (Action toolName parameter r)]
      @ evs @ [Publish (Action toolName parameter (Some toolResult)), Sleep 1000])
      = [Action toolName parameter None, Action toolName parameter (Some toolResult)]"
    using e p(3) by simp
  ultimately show ?thesis by blast
qed

text \<open>The theorem at a cycle that asks for \<^verbatim>\<open>getWeather(40.7128, -74.0060)\<close>.\<close>

theorem action_cycle_publishes_intent_then_result_witness:
  "\<exists>evs st3.
     loopBody (scripted [js ''ACTION: getWeather(40.7128, -74.0060)''])
         [(System, js ''instructions''), (User, js ''Weather in New York?'')]
         \<lparr>trace = [], world = 0\<rparr>
       = (False,
          [(System, js ''instructions''), (User, js ''Weather in New York?'')]
            @ [(Assistant, js ''ACTION: getWeather(40.7128, -74.0060)''),
               (User, js ''Tool result: '' @ js ''weather'')],
          st3)
     \<and> trace st3 = [] @ evs
     \<and> published evs
         = [Action (js ''getWeather'') (Some (js ''40.7128, -74.0060'')) None,
            Action (js ''getWeather'') (Some (js ''40.7128, -74.0060'')) (Some (js ''weather''))]"
proof -
  let ?ms = "[(System, js ''instructions''), (User, js ''Weather in New York?'')]"
  let ?act = "Action (js ''getWeather'') (Some (js ''40.7128, -74.0060'')) None"
  have ne: "js ''ACTION: getWeather(40.7128, -74.0060)'' \<noteq> []" by (simp add: js_def)
  then have c: "callOpenAI (scripted [js ''ACTION: getWeather(40.7128, -74.0060)'']) ?ms
        \<lparr>trace = [], world = 0\<rparr>
      = (Inr (js ''ACTION: getWeather(40.7128, -74.0060)''),
         \<lparr>trace = [ModelCall ?ms], world = 1\<rparr>)"
    by (rule scripted_turn_starts)
  have p: "createAgentActivity ?act \<lparr>trace = [ModelCall ?ms], world = 1::nat\<rparr>
      = \<lparr>trace = [ModelCall ?ms, Publish ?act], world = 1\<rparr>"
    by (simp add: createAgentActivity_def emit_def)
  have x: "executeAction (scripted [js ''ACTION: getWeather(40.7128, -74.0060)''])
        (js ''getWeather'') (Some (js ''40.7128, -74.0060''))
        (createAgentActivity ?act \<lparr>trace = [ModelCall ?ms], world = 1\<rparr>)
      = (Inr (js ''weather''),
         \<lparr>trace = [ModelCall ?ms, Publish ?act]
              @ [CallGetWeather (NumLit (js ''-74.0060'')) (NumLit (js ''40.7128''))],
           world = 1\<rparr>)"
    by (simp only: p executeAction_scripted_getWeather_example)
  from action_cycle_publishes_intent_then_result [OF c classify_getWeather_example x]
  show ?thesis by simp
qed

text \<open>
  Claim C5 as stated fails when \<^verbatim>\<open>executeAction\<close> throws: the second activity of the
  cycle is then an error activity, not the action with a result.
\<close>

theorem action_cycle_with_throwing_executor_counterexample:
  "published (trace (handleUserPrompt
       (scripted [js ''ACTION: getWeather(1)'', js ''RESPONSE: It is sunny''])
       (js ''Weather in Paris?'') 0))
     = [Action (js ''getWeather'') (Some (js ''1'')) None,
        Error (js ''Agent error: Invalid parameter for getWeather action'')]"
  by (simp add: run_getWeather_one)

subsection \<open>C6\<close>

text \<open>
  Claim C6. For a \<^verbatim>\<open>getWeather\<close> action whose parameter is two comma-separated
  fields that \<^verbatim>\<open>parseFloat\<close> reads as numbers, the tool is called with the parsed
  second field as its first argument and the parsed first field as its second
  argument: the prompt writes \<^verbatim>\<open>getWeather(lat, long)\<close>, the call is
  \<^verbatim>\<open>getWeather(lng, lat)\<close>.
\<close>

theorem getWeather_receives_second_field_first:
  assumes "0x2C \<notin> set a" and "0x2C \<notin> set b"
    and "\<not> isNaN (parseFloat (trim a))" and "\<not> isNaN (parseFloat (trim b))"
  shows "executeAction env (js ''getWeather'') (Some (a @ [0x2C] @ b)) st
           = invokeTool (CallGetWeather (parseFloat (trim b)) (parseFloat (trim a)))
               (getWeather env (parseFloat (trim b)) (parseFloat (trim a)))
               (JSON_stringify env) st
         \<and> trace (snd (executeAction env (js ''getWeather'') (Some (a @ [0x2C] @ b)) st))
           = trace st @ [CallGetWeather (parseFloat (trim b)) (parseFloat (trim a))]"
proof -
  have ne: "a @ [0x2C] @ b \<noteq> []" by simp
  from assms(1,2) have
    "paramParts (a @ [0x2C] @ b) = parseFloat (trim a) # parseFloat (trim b) # []"
    by (rule paramParts_two_fields)
  with ne have x: "executeAction env (js ''getWeather'') (Some (a @ [0x2C] @ b)) st
      = invokeTool (CallGetWeather (parseFloat (trim b)) (parseFloat (trim a)))
          (getWeather env (parseFloat (trim b)) (parseFloat (trim a))) (JSON_stringify env) st"
    using assms(3,4) by (rule executeAction_getWeather_valid)
  moreover have "trace (snd (invokeTool (CallGetWeather (parseFloat (trim b)) (parseFloat (trim a)))
          (getWeather env (parseFloat (trim b)) (parseFloat (trim a))) (JSON_stringify env) st))
      = trace st @ [CallGetWeather (parseFloat (trim b)) (parseFloat (trim a))]"
    using invokeTool_trace [OF surjective_pairing] by blast
  ultimately show ?thesis by simp
qed

text \<open>The theorem at the parameter \<^verbatim>\<open>40.7128, -74.0060\<close>.\<close>

theorem getWeather_receives_second_field_first_witness:
  "executeAction (scripted []) (js ''getWeather'') (Some (js ''40.7128, -74.0060''))
       \<lparr>trace = [], world = 0\<rparr>
     = (Inr (js ''weather''),
        \<lparr>trace = [CallGetWeather (NumLit (js ''-74.0060'')) (NumLit (js ''40.7128''))],
          world = 0\<rparr>)"
proof -
  have c: "0x2C \<notin> set (js ''40.7128'')" "0x2C \<notin> set (js '' -74.0060'')"
    by (simp_all add: js_def)
  have n: "\<not> isNaN (parseFloat (trim (js ''40.7128'')))"
    "\<not> isNaN (parseFloat (trim (js '' -74.0060'')))"
    by (simp_all add: parseFloat_lat parseFloat_lng isNaN_def)
  have e: "js ''40.7128'' @ 0x2C # js '' -74.0060'' = js ''40.7128, -74.0060''"
    by (simp add: js_def)
  from getWeather_receives_second_field_first [OF c n, of "scripted []" "\<lparr>trace = [], world = 0\<rparr>"]
  show ?thesis
    by (simp add: e parseFloat_lat parseFloat_lng invokeTool_scripted_getWeather)
qed

subsection \<open>C7\<close>

text \<open>
  Claim C7 fails on the code in \<^verbatim>\<open>getWeather\<close>: unlike \<^verbatim>\<open>getCoordinates\<close> and
  \<^verbatim>\<open>getTime\<close>, it never looks at \<^verbatim>\<open>response.ok\<close>. For a response with status 500
  whose body carries weather data it returns the weather text, where the other
  two tools return their API error for the same status.
\<close>

theorem getWeather_ignores_http_status:
  "getWeatherTool numberToString params
       (Answers ms (HttpResponse False 500 (js ''Internal Server Error'')
          (Inr (Some (WeatherData (Some (Current 21.5 0)))))))
     = Some (Inr (numberToString 21.5 @ [0xC2, 0xB0] @ js ''C, clear sky''))
   \<and> getCoordinatesTool city_name
       (Answers ms (HttpResponse False 500 (js ''Internal Server Error'') placesBody))
     = Some (Inr (CoordinatesError (js ''OpenStreetMap API error: 500 Internal Server Error'')))
   \<and> getTimeTool abortError params
       (Answers 100 (HttpResponse False 500 (js ''Internal Server Error'') timeBody))
     = Some (Inr (js ''Time API error: 500 Internal Server Error''))"
proof (intro conjI)
  show "getWeatherTool numberToString params
       (Answers ms (HttpResponse False 500 (js ''Internal Server Error'')
          (Inr (Some (WeatherData (Some (Current 21.5 0)))))))
     = Some (Inr (numberToString 21.5 @ [0xC2, 0xB0] @ js ''C, clear sky''))"
    by (simp add: getWeatherTool_def fetch_def getWeatherTry_def tryCatch_def
        getWeatherDescription_0) (simp add: js_def)
  have a: "js ''OpenStreetMap API error: '' @ js ''500'' @ js '' '' @ js ''Internal Server Error''
      = js ''OpenStreetMap API error: 500 Internal Server Error''"
    "js ''Time API error: '' @ js ''500'' @ js '' '' @ js ''Internal Server Error''
      = js ''Time API error: 500 Internal Server Error''"
    by (simp_all add: js_def)
  show "getCoordinatesTool city_name
       (Answers ms (HttpResponse False 500 (js ''Internal Server Error'') placesBody))
     = Some (Inr (CoordinatesError (js ''OpenStreetMap API error: 500 Internal Server Error'')))"
    by (simp only: tools_http_status(1) showNat_500 a)
  have "(100::nat) < 60000" by simp
  then show "getTimeTool abortError params
       (Answers 100 (HttpResponse False 500 (js ''Internal Server Error'') timeBody))
     = Some (Inr (js ''Time API error: 500 Internal Server Error''))"
    by (simp only: tools_http_status(2) showNat_500 a)
qed

subsection \<open>C8\<close>




subsection \<open>C9\<close>

text \<open>
  Claim C9. No keyword is a prefix of another, so a response starts with at most
  one of the five keywords, and the classifier gives the same result whatever the
  order in which the entries of \<^verbatim>\<open>typeToKeyword\<close> are scanned.
\<close>

theorem classifier_order_independent:
  "(\<forall>t1 t2. startsWith response (keywordOf t1) \<and> startsWith response (keywordOf t2) \<longrightarrow> t1 = t2)
   \<and> (\<forall>t1 t2. t1 \<noteq> t2 \<longrightarrow> \<not> prefix (keywordOf t1) (keywordOf t2))
   \<and> (\<forall>entries. mset entries = mset typeToKeyword \<longrightarrow>
         classifyWith entries response = mapResponseToLinearActivityContent response)"
proof (intro conjI allI impI)
  fix t1 t2
  assume "startsWith response (keywordOf t1) \<and> startsWith response (keywordOf t2)"
  then show "t1 = t2" by (auto simp: startsWith_def intro: keyword_unique)
next
  fix t1 t2 :: AgentActivityType
  assume "t1 \<noteq> t2"
  then show "\<not> prefix (keywordOf t1) (keywordOf t2)" by (rule keyword_not_prefix)
next
  fix entries
  assume "mset entries = mset typeToKeyword"
  then have "set entries = set typeToKeyword" by (rule mset_eq_setD)
  then have "findType entries response = findType typeToKeyword response"
    by (rule findType_order)
  then show "classifyWith entries response = mapResponseToLinearActivityContent response"
    by (simp add: classifyWith_def mapResponseToLinearActivityContent_def)
qed

text \<open>The theorem at an \<^verbatim>\<open>ERROR:\<close> response and the reversed scan order.\<close>

theorem classifier_order_independent_witness:
  "classifyWith (rev typeToKeyword) (js ''ERROR: tool failed'')
     = mapResponseToLinearActivityContent (js ''ERROR: tool failed'')
   \<and> mapResponseToLinearActivityContent (js ''ERROR: tool failed'') = Inr (Error (js ''tool failed''))
   \<and> \<not> prefix (keywordOf Type_Error) (keywordOf Type_Elicitation)"
proof -
  have m: "mset (rev typeToKeyword) = mset typeToKeyword" by simp
  have "classifyWith (rev typeToKeyword) (js ''ERROR: tool failed'')
     = mapResponseToLinearActivityContent (js ''ERROR: tool failed'')"
    using classifier_order_independent [of "js ''ERROR: tool failed''"] m by blast
  moreover have "mapResponseToLinearActivityContent (js ''ERROR: tool failed'') = Inr (Error (js ''tool failed''))"
    by (simp add: mapResponseToLinearActivityContent_def classifyWith_def findType_def
       typeToKeyword_def startsWith_def js_def trim_def isWhiteSpace_def)
  moreover have "\<not> prefix (keywordOf Type_Error) (keywordOf Type_Elicitation)"
    using classifier_order_independent [of "js ''ERROR: tool failed''"] by blast
  ultimately show ?thesis by blast
qed

subsection \<open>C10\<close>

text \<open>
  Claim C10, as the code has it. An action that the classifier returns has a
  parameter that is neither null nor empty, so \<^verbatim>\<open>executeAction\<close> passes its guard and reaches the \<^verbatim>\<open>switch\<close>.
  A response \<^verbatim>\<open>ACTION:\<close>, white space, a name and an empty argument list \<^verbatim>\<open>()\<close>,
  with no further \<^verbatim>\<open>ACTION:\<close> in what follows, is not classified as an action: the
  classifier throws, and no tool is invoked.
\<close>

theorem classified_action_has_parameter:
  "(mapResponseToLinearActivityContent response = Inr (Action action parameter result) \<longrightarrow>
      (\<exists>p. parameter = Some p \<and> p \<noteq> []
           \<and> executeAction env action parameter st = switchAction env action p st))
   \<and> (list_all isWhiteSpace space \<and> list_all isWordChar name \<and> \<not> occurs (js ''ACTION:'') rest \<longrightarrow>
        mapResponseToLinearActivityContent (js ''ACTION:'' @ space @ name @ js ''()'' @ rest)
          = Inl (UnreachableCaseError (js ''action'')))"
proof (intro conjI impI)
  assume "mapResponseToLinearActivityContent response = Inr (Action action parameter result)"
  then obtain p where "parameter = Some p" "p \<noteq> []"
    using classify_Action_nonempty by blast
  then show "\<exists>p. parameter = Some p \<and> p \<noteq> []
      \<and> executeAction env action parameter st = switchAction env action p st"
    by (simp add: executeAction_def orNull_def)
next
  assume a: "list_all isWhiteSpace space \<and> list_all isWordChar name \<and> \<not> occurs (js ''ACTION:'') rest"
  then have "actionMatch (js ''ACTION:'' @ space @ name @ js ''()'' @ rest) = None"
    by (simp add: actionMatch_empty_arguments)
  moreover have "findType typeToKeyword (js ''ACTION:'' @ space @ name @ js ''()'' @ rest) = Some Type_Action"
    using findType_keyword [of "js ''ACTION:'' @ space @ name @ js ''()'' @ rest" Type_Action]
    by (simp add: startsWith_def)
  ultimately show "mapResponseToLinearActivityContent (js ''ACTION:'' @ space @ name @ js ''()'' @ rest)
      = Inl (UnreachableCaseError (js ''action''))"
    by (simp add: mapResponseToLinearActivityContent_def classifyWith_def)
qed

text \<open>The theorem at a \<^verbatim>\<open>getWeather\<close> action and at \<^verbatim>\<open>ACTION: getTime()\<close>.\<close>

theorem classified_action_has_parameter_witness:
  "executeAction (scripted []) (js ''getWeather'') (Some (js ''40.7128, -74.0060''))
        \<lparr>trace = [], world = 0\<rparr>
      = switchAction (scripted []) (js ''getWeather'') (js ''40.7128, -74.0060'')
          \<lparr>trace = [], world = 0\<rparr>
   \<and> mapResponseToLinearActivityContent (js ''ACTION: getTime()'')
      = Inl (UnreachableCaseError (js ''action''))"
proof -
  have h: "list_all isWhiteSpace (js '' '') \<and> list_all isWordChar (js ''getTime'')
      \<and> \<not> occurs (js ''ACTION:'') []"
    by (simp add: js_def isWhiteSpace_def isWordChar_def isDigit_def)
  have e: "js ''ACTION:'' @ js '' '' @ js ''getTime'' @ js ''()'' @ [] = js ''ACTION: getTime()''"
    by (simp add: js_def)
  from classified_action_has_parameter
    [of "js ''ACTION: getWeather(40.7128, -74.0060)''" "js ''getWeather''"
        "Some (js ''40.7128, -74.0060'')" None "scripted []" "\<lparr>trace = [], world = 0\<rparr>"
        "js '' ''" "js ''getTime''" "[]"]
    classify_getWeather_example h e
  show ?thesis by simp
qed

text \<open>
  Claim C10 as stated fails in its last part: the pattern is not anchored, so an
  output that starts with \<^verbatim>\<open>ACTION:\<close> and an empty argument list and goes on with a
  well-formed call is classified as that later call, and the tool is invoked.
\<close>

theorem empty_argument_list_then_call_counterexample:
  "startsWith (js ''ACTION: getWeather() ACTION: getWeather(1, 2)'') (js ''ACTION:'')
   \<and> mapResponseToLinearActivityContent (js ''ACTION: getWeather() ACTION: getWeather(1, 2)'')
       = Inr (Action (js ''getWeather'') (Some (js ''1, 2'')) None)
   \<and> executeAction (scripted []) (js ''getWeather'') (Some (js ''1, 2''))
         \<lparr>trace = [], world = 0\<rparr>
       = (Inr (js ''weather''),
          \<lparr>trace = [CallGetWeather (NumLit (js ''2'')) (NumLit (js ''1''))], world = 0\<rparr>)"
proof (intro conjI)
  show "startsWith (js ''ACTION: getWeather() ACTION: getWeather(1, 2)'') (js ''ACTION:'')"
    by (simp add: startsWith_def js_def)
  show "mapResponseToLinearActivityContent (js ''ACTION: getWeather() ACTION: getWeather(1, 2)'')
       = Inr (Action (js ''getWeather'') (Some (js ''1, 2'')) None)"
    by (rule classify_second_call)
  have ne: "js ''1, 2'' \<noteq> []" by (simp add: js_def)
  have "executeAction (scripted []) (js ''getWeather'') (Some (js ''1, 2''))
         \<lparr>trace = [], world = 0\<rparr>
       = invokeTool (CallGetWeather (NumLit (js ''2'')) (NumLit (js ''1'')))
           (getWeather (scripted []) (NumLit (js ''2'')) (NumLit (js ''1'')))
           (JSON_stringify (scripted [])) \<lparr>trace = [], world = 0\<rparr>"
    using ne paramParts_one_two
    by (rule executeAction_getWeather_valid) (simp_all add: isNaN_def)
  then show "executeAction (scripted []) (js ''getWeather'') (Some (js ''1, 2''))
         \<lparr>trace = [], world = 0\<rparr>
       = (Inr (js ''weather''),
          \<lparr>trace = [CallGetWeather (NumLit (js ''2'')) (NumLit (js ''1''))], world = 0\<rparr>)"
    by (simp add: invokeTool_scripted_getWeather)
qed

end
